theory Spec2Isabelle
  imports Complex_Main "HOL-Library.Word" "HOL-Library.Log_Nat"
begin

section \<open>JavaScript values used by the pipeline\<close>

text \<open>
  Values produced by \<^verbatim>\<open>response.json()\<close> and passed between the modules. JavaScript's
  \<^verbatim>\<open>null\<close> and \<^verbatim>\<open>undefined\<close> are both \<open>JNull\<close> (the code only tests
  them for truthiness). A number is the rational it denotes. An object is its list of
  own properties.
\<close>

datatype json =
    JNull
  | JBool bool
  | JNum rat
  | JStr string
  | JArr "json list"
  | JObj "(string \<times> json) list"

datatype error =
    TypeError
  | ConfigLoadError
  | NetworkError string
  | HttpError nat string
  | JsonSyntaxError
  | FetchFailed nat "error option"
  | FsError string
  | NotANumber

text \<open>\<^verbatim>\<open>!!v\<close>: the falsy values are null, undefined, false, 0, NaN and the empty string.\<close>

fun truthy :: "json \<Rightarrow> bool" where
  "truthy JNull = False"
| "truthy (JBool b) = b"
| "truthy (JNum q) = (q \<noteq> 0)"
| "truthy (JStr s) = (s \<noteq> [])"
| "truthy (JArr xs) = True"
| "truthy (JObj kvs) = True"

text \<open>
  \<^verbatim>\<open>v.k\<close> for the property names the code reads (\<^verbatim>\<open>hash\<close>, \<^verbatim>\<open>id\<close>,
  \<^verbatim>\<open>block\<close>, \<^verbatim>\<open>length\<close>, the metadata fields): reading a property of null or
  undefined throws a TypeError; strings and arrays have a \<^verbatim>\<open>length\<close>; a missing
  property is undefined.
\<close>

fun readProp :: "json \<Rightarrow> string \<Rightarrow> json" where
  "readProp (JObj kvs) k = (case map_of kvs k of Some v \<Rightarrow> v | None \<Rightarrow> JNull)"
| "readProp (JArr xs) k = (if k = ''length'' then JNum (of_nat (length xs)) else JNull)"
| "readProp (JStr s) k = (if k = ''length'' then JNum (of_nat (length s)) else JNull)"
| "readProp v k = JNull"

definition getProp :: "json \<Rightarrow> string \<Rightarrow> error + json" where
  "getProp v k = (if v = JNull then Inl TypeError else Inr (readProp v k))"

text \<open>\<^verbatim>\<open>a || b\<close> on values.\<close>

definition js_or :: "json \<Rightarrow> json \<Rightarrow> json" where
  "js_or a b = (if truthy a then a else b)"

section \<open>fetchBlockchain.js\<close>

record retry_config =
  maxRetries :: nat
  initialDelayMs :: nat
  maxDelayMs :: nat
  backoffMultiplier :: nat

definition RETRY_CONFIG :: retry_config where
  "RETRY_CONFIG =
     \<lparr>maxRetries = 3, initialDelayMs = 1000, maxDelayMs = 10000, backoffMultiplier = 2\<rparr>"

definition getBackoffDelay :: "retry_config \<Rightarrow> nat \<Rightarrow> nat" where
  "getBackoffDelay rc attempt =
     (let delay = initialDelayMs rc * backoffMultiplier rc ^ attempt
      in min delay (maxDelayMs rc))"

text \<open>
  The network. An HTTP response carries its status and, when its body parses as JSON, the
  parsed value (\<^verbatim>\<open>response.json()\<close> rejects otherwise). A request either gets a
  response or fails at the network level (which includes the 30 s abort). The endpoint
  is a function from the number of requests it has already received to the outcome of
  the next one. What the client does is recorded as a trace of requests and sleeps, in
  the order they happen.
\<close>

record response =
  status :: nat
  statusText :: string
  body :: "json option"

datatype outcome = Responds response | NetworkFails string

datatype event = Request | Sleep nat

definition requests :: "event list \<Rightarrow> nat" where
  "requests tr = length (filter (\<lambda>e. e = Request) tr)"

definition sleeps :: "event list \<Rightarrow> nat list" where
  "sleeps tr = concat (map (\<lambda>e. case e of Request \<Rightarrow> [] | Sleep d \<Rightarrow> [d]) tr)"

definition ok :: "response \<Rightarrow> bool" where
  "ok resp = (200 \<le> status resp \<and> status resp \<le> 299)"

function fetchWithRetry ::
  "retry_config \<Rightarrow> (nat \<Rightarrow> outcome) \<Rightarrow> nat \<Rightarrow> event list \<Rightarrow> (error + response) \<times> event list"
where
  "fetchWithRetry rc server attempt tr =
     (case server (requests tr) of
        Responds resp \<Rightarrow>
          if status resp \<ge> 500 \<and> attempt < maxRetries rc
          then fetchWithRetry rc server (attempt + 1)
                 (tr @ [Request, Sleep (getBackoffDelay rc attempt)])
          else (Inr resp, tr @ [Request])
      | NetworkFails msg \<Rightarrow>
          if attempt < maxRetries rc
          then fetchWithRetry rc server (attempt + 1)
                 (tr @ [Request, Sleep (getBackoffDelay rc attempt)])
          else (Inl (NetworkError msg), tr @ [Request]))"
  by pat_completeness auto
termination
  by (relation "measure (\<lambda>(rc, server, attempt, tr). maxRetries rc - attempt)") auto

declare fetchWithRetry.simps [simp del]

text \<open>
  The hash is taken from the parsed body: element 0 of a non-empty array
  (\<^verbatim>\<open>data[0].id || data[0].hash || data[0]\<close>), else \<^verbatim>\<open>data.block?.hash\<close>, else
  \<^verbatim>\<open>data.hash\<close>, else null.
\<close>

definition extractHash :: "json \<Rightarrow> error + json" where
  "extractHash data =
     (case data of
        JArr (d0 # ds) \<Rightarrow>
          (case getProp d0 ''id'' of
             Inl e \<Rightarrow> Inl e
           | Inr i \<Rightarrow> Inr (js_or i (js_or (readProp d0 ''hash'') d0)))
      | _ \<Rightarrow>
          (case getProp data ''block'' of
             Inl e \<Rightarrow> Inl e
           | Inr blk \<Rightarrow>
               if truthy (if blk = JNull then JNull else readProp blk ''hash'')
               then Inr (readProp blk ''hash'')
               else if truthy (readProp data ''hash'') then Inr (readProp data ''hash'')
               else Inr JNull))"

text \<open>
  One pass through the body of the \<^verbatim>\<open>try\<close> in \<^verbatim>\<open>fetchLatestBlockHash\<close>: it
  returns the hash, or reaches \<^verbatim>\<open>continue\<close> (after its own sleep), or throws into the
  \<^verbatim>\<open>catch\<close> of the same iteration.
\<close>

datatype step = Return json | Continue | Throw error

definition tryBody ::
  "retry_config \<Rightarrow> (nat \<Rightarrow> outcome) \<Rightarrow> nat \<Rightarrow> event list \<Rightarrow> step \<times> event list"
where
  "tryBody rc server attempt tr =
     (case fetchWithRetry rc server 0 tr of
        (Inl e, tr1) \<Rightarrow> (Throw e, tr1)
      | (Inr resp, tr1) \<Rightarrow>
          if \<not> ok resp then
            (if status resp \<ge> 500 \<and> attempt < maxRetries rc
             then (Continue, tr1 @ [Sleep (getBackoffDelay rc attempt)])
             else (Throw (HttpError (status resp) (statusText resp)), tr1))
          else
            (case body resp of
               None \<Rightarrow> (Throw JsonSyntaxError, tr1)
             | Some data \<Rightarrow>
                 (case extractHash data of
                    Inl e \<Rightarrow> (Throw e, tr1)
                  | Inr hash \<Rightarrow> (Return hash, tr1))))"

function fetchLoop ::
  "retry_config \<Rightarrow> (nat \<Rightarrow> outcome) \<Rightarrow> nat \<Rightarrow> error option \<Rightarrow> event list
     \<Rightarrow> (error + json) \<times> event list"
where
  "fetchLoop rc server attempt lastError tr =
     (if attempt \<le> maxRetries rc then
        (case tryBody rc server attempt tr of
           (Return hash, tr1) \<Rightarrow> (Inr hash, tr1)
         | (Continue, tr1) \<Rightarrow> fetchLoop rc server (attempt + 1) lastError tr1
         | (Throw e, tr1) \<Rightarrow>
             fetchLoop rc server (attempt + 1) (Some e)
               (if attempt < maxRetries rc
                then tr1 @ [Sleep (getBackoffDelay rc attempt)] else tr1))
      else (Inl (FetchFailed (maxRetries rc + 1) lastError), tr))"
  by pat_completeness auto
termination
  by (relation "measure (\<lambda>(rc, server, attempt, lastError, tr). maxRetries rc + 1 - attempt)") auto

declare fetchLoop.simps [simp del]

text \<open>
  \<^verbatim>\<open>fetchLatestBlockHash\<close>: the configuration is loaded first (a failed load throws
  before any request), \<^verbatim>\<open>cfg.blockchain\<close> must be there to build the URL, then the
  loop over \<^verbatim>\<open>attempt = 0 .. maxRetries\<close> runs.
\<close>

record blockchain_config =
  rpcUrl :: string
  latestBlockEndpoint :: string

record color_config =
  algorithm :: "string option"
  paletteSize :: "nat option"
  saturationRange :: "(rat \<times> rat) option"
  lightnessRange :: "(rat \<times> rat) option"

record output_config =
  publicDir :: "string option"

record config =
  blockchain :: "blockchain_config option"
  colorDerivation :: "color_config option"
  outputConfig :: "output_config option"

definition fetchLatestBlockHash ::
  "retry_config \<Rightarrow> config option \<Rightarrow> (nat \<Rightarrow> outcome) \<Rightarrow> (error + json) \<times> event list"
where
  "fetchLatestBlockHash rc loaded server =
     (case loaded of
        None \<Rightarrow> (Inl ConfigLoadError, [])
      | Some cfg \<Rightarrow>
          (case blockchain cfg of
             None \<Rightarrow> (Inl TypeError, [])
           | Some bc \<Rightarrow> fetchLoop rc server 0 None []))"

section \<open>Numbers and strings as the code uses them\<close>

text \<open>
  JavaScript numbers are IEEE doubles. A double is the rational it denotes, and an
  arithmetic operation on doubles is the exact operation followed by \<open>toDouble\<close>, the
  rounding to the nearest double (below). \<^verbatim>\<open>hslToHex\<close> is computed that way. The hue,
  saturation and lightness of \<^verbatim>\<open>deriveSingleColor\<close> are computed on the rationals
  themselves, without the intermediate roundings. \<^verbatim>\<open>Math.round\<close> yields the nearest
  integer, halves upwards; it is exact on a double.
\<close>

definition js_round :: "rat \<Rightarrow> int" where
  "js_round x = \<lfloor>x + 1 / 2\<rfloor>"

text \<open>\<^verbatim>\<open>a % b\<close>: the remainder has the sign of the dividend.\<close>

definition js_mod :: "rat \<Rightarrow> rat \<Rightarrow> rat" where
  "js_mod x y = sgn x * (\<bar>x\<bar> - \<bar>y\<bar> * of_int \<lfloor>\<bar>x\<bar> / \<bar>y\<bar>\<rfloor>)"

definition js_mod_int :: "int \<Rightarrow> int \<Rightarrow> int" where
  "js_mod_int a b = sgn a * (\<bar>a\<bar> mod \<bar>b\<bar>)"

text \<open>\<^verbatim>\<open>s.substring(a, b)\<close>: indices beyond the end are clamped, and swapped if \<open>a > b\<close>.\<close>

definition substring :: "string \<Rightarrow> nat \<Rightarrow> nat \<Rightarrow> string" where
  "substring str a b = (if a \<le> b then take (b - a) (drop a str) else take (a - b) (drop b str))"

definition hexDigitValue :: "char \<Rightarrow> nat option" where
  "hexDigitValue ch =
     (let n = (of_char ch :: nat)
      in if 48 \<le> n \<and> n \<le> 57 then Some (n - 48)
         else if 97 \<le> n \<and> n \<le> 102 then Some (n - 87)
         else if 65 \<le> n \<and> n \<le> 70 then Some (n - 55)
         else None)"

definition isHexChar :: "char \<Rightarrow> bool" where
  "isHexChar ch = (hexDigitValue ch \<noteq> None)"

text \<open>
  \<^verbatim>\<open>parseInt(str, 16)\<close> on a non-empty string of hexadecimal digits. On any other
  string the result is \<open>None\<close>: JavaScript gives NaN or the value of a prefix there, which
  the model does not follow (no such string is ever cut from a hex-encoded digest).
\<close>

definition parseInt16 :: "string \<Rightarrow> int option" where
  "parseInt16 str =
     (if str \<noteq> [] \<and> list_all isHexChar str
      then Some (foldl (\<lambda>v ch. 16 * v + int (case hexDigitValue ch of Some d \<Rightarrow> d | None \<Rightarrow> 0)) 0 str)
      else None)"

text \<open>\<^verbatim>\<open>n.toString(radix)\<close> for an integer, radix 10 or 16, lowercase digits.\<close>

definition digitChar :: "nat \<Rightarrow> char" where
  "digitChar d = (if d < 16 then ''0123456789abcdef'' ! d else CHR ''?'')"

function natToString :: "nat \<Rightarrow> nat \<Rightarrow> string" where
  "natToString radix n =
     (if 2 \<le> radix \<and> radix \<le> n
      then natToString radix (n div radix) @ [digitChar (n mod radix)]
      else [digitChar n])"
  by pat_completeness auto
termination
  by (relation "measure snd") auto

declare natToString.simps [simp del]

definition intToString :: "nat \<Rightarrow> int \<Rightarrow> string" where
  "intToString radix i =
     (if i < 0 then ''-'' @ natToString radix (nat (- i)) else natToString radix (nat i))"

text \<open>\<^verbatim>\<open>str.padStart(2, '0')\<close>.\<close>

definition padStart2 :: "string \<Rightarrow> string" where
  "padStart2 str = replicate (2 - length str) (CHR ''0'') @ str"

text \<open>
  Rounding to a double, to nearest and ties to even, as IEEE 754 has it for every
  arithmetic operation: a double has 53 significant bits, and its exponent is at least
  \<open>-1022\<close> (below that the doubles are the multiples of \<open>2 powi -1074\<close>).
  \<open>binaryExponent x\<close> is the \<open>e\<close> with \<open>2 powi e \<le> x < 2 powi (e + 1)\<close>, for a
  positive \<open>x\<close>. Overflow to Infinity, above \<open>2 powi 1024\<close>, is not followed.
\<close>

definition binaryExponent :: "rat \<Rightarrow> int" where
  "binaryExponent x =
     (let (p, q) = quotient_of x;
          e = bitlen p - bitlen q
      in if 2 powi e \<le> x then e else e - 1)"

definition roundHalfEven :: "rat \<Rightarrow> int" where
  "roundHalfEven y =
     (let f = \<lfloor>y\<rfloor>;
          r = y - of_int f
      in if r < 1 / 2 then f else if 1 / 2 < r then f + 1 else if even f then f else f + 1)"

definition toDouble :: "rat \<Rightarrow> rat" where
  "toDouble x =
     (if x = 0 then 0
      else (let e = max (binaryExponent \<bar>x\<bar>) (- 1022);
                q = 2 powi (e - 52)
            in of_int (roundHalfEven (x / q)) * q))"

text \<open>\<^verbatim>\<open>a + b\<close>, \<^verbatim>\<open>a - b\<close>, \<^verbatim>\<open>a * b\<close> and \<^verbatim>\<open>a / b\<close> on doubles.\<close>

definition dadd :: "rat \<Rightarrow> rat \<Rightarrow> rat" where
  "dadd a b = toDouble (a + b)"

definition dsub :: "rat \<Rightarrow> rat \<Rightarrow> rat" where
  "dsub a b = toDouble (a - b)"

definition dmul :: "rat \<Rightarrow> rat \<Rightarrow> rat" where
  "dmul a b = toDouble (a * b)"

definition ddiv :: "rat \<Rightarrow> rat \<Rightarrow> rat" where
  "ddiv a b = toDouble (a / b)"


section \<open>parseLedger.js\<close>

text \<open>
  \<^verbatim>\<open>/^[a-fA-F0-9]+$/.test(hash)\<close>. The argument is converted to a string first: a
  number prints as digits only when it is a non-negative integer below \<open>10^21\<close> (otherwise
  its text has a sign, a point or an exponent with a sign); an array prints its elements
  joined by commas, so only a one-element array can match, when its element does (null
  prints as the empty string there); true, false, null and objects print with letters
  outside a-f.
\<close>

fun hexTest :: "json \<Rightarrow> bool" where
  "hexTest (JStr str) = (str \<noteq> [] \<and> list_all isHexChar str)"
| "hexTest (JNum q) = (0 \<le> q \<and> q < 10 ^ 21 \<and> of_int \<lfloor>q\<rfloor> = q)"
| "hexTest (JArr [x]) = hexTest x"
| "hexTest v = False"

definition parseBlockHash :: "json \<Rightarrow> json" where
  "parseBlockHash blockData =
     (if \<not> truthy blockData then JNull
      else
        let hash =
          (case blockData of
             JStr str \<Rightarrow> blockData
           | _ \<Rightarrow>
               if truthy (readProp blockData ''hash'') then readProp blockData ''hash''
               else if truthy (readProp blockData ''id'') then readProp blockData ''id''
               else JNull)
        in if truthy hash \<and> hexTest hash then hash else JNull)"

primrec parseBlocks :: "json list \<Rightarrow> json list \<Rightarrow> json list" where
  "parseBlocks [] hashes = hashes"
| "parseBlocks (block # blocks) hashes =
     (let hash = parseBlockHash block
      in parseBlocks blocks (if truthy hash then hashes @ [hash] else hashes))"

definition parseBlockArray :: "json \<Rightarrow> json list" where
  "parseBlockArray blocks =
     (case blocks of
        JArr bs \<Rightarrow> if length bs = 0 then [] else parseBlocks bs []
      | _ \<Rightarrow> [])"

text \<open>
  \<^verbatim>\<open>normalizeHash\<close>: \<^verbatim>\<open>toLowerCase\<close> exists on strings only, so a truthy value of
  another type throws a TypeError.
\<close>

definition toLowerCase :: "string \<Rightarrow> string" where
  "toLowerCase str =
     map (\<lambda>ch. let n = (of_char ch :: nat) in if 65 \<le> n \<and> n \<le> 90 then char_of (n + 32) else ch) str"

definition isLowerHexChar :: "char \<Rightarrow> bool" where
  "isLowerHexChar ch =
     (let n = (of_char ch :: nat) in (48 \<le> n \<and> n \<le> 57) \<or> (97 \<le> n \<and> n \<le> 102))"

definition normalizeHash :: "json \<Rightarrow> error + string" where
  "normalizeHash hash =
     (if \<not> truthy hash then Inr []
      else case hash of
             JStr str \<Rightarrow> Inr (filter isLowerHexChar (toLowerCase str))
           | _ \<Rightarrow> Inl TypeError)"

primrec mapNormalize :: "json list \<Rightarrow> error + string list" where
  "mapNormalize [] = Inr []"
| "mapNormalize (x # xs) =
     (case normalizeHash x of
        Inl e \<Rightarrow> Inl e
      | Inr y \<Rightarrow> (case mapNormalize xs of Inl e \<Rightarrow> Inl e | Inr ys \<Rightarrow> Inr (y # ys)))"

definition extractBlockMetadata :: "json \<Rightarrow> json" where
  "extractBlockMetadata blockData =
     (if \<not> truthy blockData \<or> \<not> (case blockData of JArr xs \<Rightarrow> True | JObj kvs \<Rightarrow> True | _ \<Rightarrow> False)
      then JObj []
      else JObj
        [(''height'', js_or (readProp blockData ''height'') (js_or (readProp blockData ''block_height'') JNull)),
         (''timestamp'', js_or (readProp blockData ''timestamp'') (js_or (readProp blockData ''time'') JNull)),
         (''txCount'',
            js_or (if readProp blockData ''tx'' = JNull then JNull
                   else readProp (readProp blockData ''tx'') ''length'')
              (js_or (readProp blockData ''n_tx'') (JNum 0))),
         (''size'', js_or (readProp blockData ''size'') JNull)])"

record parsed_data =
  pd_hash :: "string option"
  pd_hashes :: "string list"
  pd_metadata :: json
  pd_algorithm :: "string option"

text \<open>\<^verbatim>\<open>cfg.colorDerivation?.algorithm || 'sha256'\<close>.\<close>

definition configuredAlgorithm :: "config \<Rightarrow> string" where
  "configuredAlgorithm cfg =
     (case colorDerivation cfg of
        None \<Rightarrow> ''sha256''
      | Some cd \<Rightarrow> (case algorithm cd of None \<Rightarrow> ''sha256'' | Some a \<Rightarrow> if a \<noteq> [] then a else ''sha256''))"

text \<open>
  \<^verbatim>\<open>parseLedger\<close>. For an array, the primary hash is \<^verbatim>\<open>hashes[0] || null\<close> of the
  valid hashes of all elements, while the metadata are read from \<^verbatim>\<open>rawData[0]\<close>.
\<close>

definition parseLedger :: "config option \<Rightarrow> json \<Rightarrow> error + parsed_data" where
  "parseLedger loaded rawData =
     (case loaded of
        None \<Rightarrow> Inl ConfigLoadError
      | Some cfg \<Rightarrow>
          if \<not> truthy rawData
          then Inr \<lparr>pd_hash = None, pd_hashes = [], pd_metadata = JObj [], pd_algorithm = None\<rparr>
          else
            let (hash, hashes, metadata) =
              (case rawData of
                 JArr bs \<Rightarrow>
                   (let hashes = parseBlockArray rawData
                    in (case hashes of [] \<Rightarrow> JNull | h0 # hs \<Rightarrow> js_or h0 JNull,
                        hashes,
                        case bs of
                          [] \<Rightarrow> JObj []
                        | b0 # bs' \<Rightarrow> if truthy b0 then extractBlockMetadata b0 else JObj []))
               | _ \<Rightarrow>
                   (let hash = parseBlockHash rawData
                    in (hash, if truthy hash then [hash] else [], extractBlockMetadata rawData)))
            in case normalizeHash hash of
                 Inl e \<Rightarrow> Inl e
               | Inr normalizedHash \<Rightarrow>
                   (case mapNormalize hashes of
                      Inl e \<Rightarrow> Inl e
                    | Inr normalized \<Rightarrow>
                        Inr \<lparr>pd_hash = Some normalizedHash, pd_hashes = normalized,
                             pd_metadata = metadata,
                             pd_algorithm = Some (configuredAlgorithm cfg)\<rparr>))"

section \<open>deriveColors.js\<close>

record hsl =
  hsl_h :: int
  hsl_s :: int
  hsl_l :: int

record color =
  hsl :: hsl
  css :: string
  hex :: string

record swatch = color +
  index :: nat
  fromHash :: string

record color_data =
  palette :: "swatch list"
  primaryColor :: "swatch option"
  accentColor :: "color option"
  cd_hash :: "string option"
  cd_algorithm :: string
  cd_metadata :: "json option"
  derivedAt :: "string option"

text \<open>
  \<^verbatim>\<open>sha256\<close>. The platform's \<^verbatim>\<open>crypto.subtle.digest('SHA-256', data)\<close> is a
  parameter \<open>digest\<close> from the bytes of the input to a 256-bit value; the code views it as
  32 bytes, first byte first, and prints each byte as two hexadecimal digits.
\<close>

definition digestBytes :: "256 word \<Rightarrow> 8 word list" where
  "digestBytes d = map (\<lambda>k. ucast (drop_bit (8 * (31 - k)) d)) [0..<32]"

definition sha256 :: "(string \<Rightarrow> 256 word) \<Rightarrow> string \<Rightarrow> string" where
  "sha256 digest input =
     (let hashArray = digestBytes (digest input)
      in concat (map (\<lambda>b. padStart2 (intToString 16 (uint b))) hashArray))"

definition hslToCss :: "hsl \<Rightarrow> string" where
  "hslToCss v =
     ''hsl('' @ intToString 10 (hsl_h v) @ '', '' @ intToString 10 (hsl_s v) @ ''%, ''
       @ intToString 10 (hsl_l v) @ ''%)''"

text \<open>
  \<^verbatim>\<open>hslToHex\<close>, on doubles: every quotient, product, sum and difference of the code is
  rounded to a double, in the order in which the code evaluates them. The remainder
  \<^verbatim>\<open>%\<close> of two doubles is a double and is not rounded; neither is
  \<^verbatim>\<open>Math.abs\<close>.
\<close>

definition hslToHex :: "hsl \<Rightarrow> string" where
  "hslToHex v =
     (let s = ddiv (of_int (hsl_s v)) 100;
          l = ddiv (of_int (hsl_l v)) 100;
          c = dmul (dsub 1 \<bar>dsub (dmul 2 l) 1\<bar>) s;
          x = dmul c (dsub 1 \<bar>dsub (js_mod (ddiv (of_int (hsl_h v)) 60) 2) 1\<bar>);
          m = dsub l (ddiv c 2);
          (r, g, b) =
            (if hsl_h v \<ge> 0 \<and> hsl_h v < 60 then (c, x, 0)
             else if hsl_h v \<ge> 60 \<and> hsl_h v < 120 then (x, c, 0)
             else if hsl_h v \<ge> 120 \<and> hsl_h v < 180 then (0, c, x)
             else if hsl_h v \<ge> 180 \<and> hsl_h v < 240 then (0, x, c)
             else if hsl_h v \<ge> 240 \<and> hsl_h v < 300 then (x, 0, c)
             else (c, 0, x));
          toHex = (\<lambda>n. padStart2 (intToString 16 (js_round (dmul (dadd n m) 255))))
      in ''#'' @ toHex r @ toHex g @ toHex b)"

text \<open>
  \<^verbatim>\<open>cfg.colorDerivation?.saturationRange || [0.6, 0.9]\<close> and its siblings. A palette
  size of 0 is falsy and falls back to 6 as an absent one does.
\<close>

definition satRangeOf :: "config \<Rightarrow> rat \<times> rat" where
  "satRangeOf cfg =
     (case colorDerivation cfg of
        None \<Rightarrow> (6 / 10, 9 / 10)
      | Some cd \<Rightarrow> (case saturationRange cd of None \<Rightarrow> (6 / 10, 9 / 10) | Some r \<Rightarrow> r))"

definition lightRangeOf :: "config \<Rightarrow> rat \<times> rat" where
  "lightRangeOf cfg =
     (case colorDerivation cfg of
        None \<Rightarrow> (4 / 10, 7 / 10)
      | Some cd \<Rightarrow> (case lightnessRange cd of None \<Rightarrow> (4 / 10, 7 / 10) | Some r \<Rightarrow> r))"

definition paletteSizeOf :: "config \<Rightarrow> nat" where
  "paletteSizeOf cfg =
     (case colorDerivation cfg of
        None \<Rightarrow> 6
      | Some cd \<Rightarrow> (case paletteSize cd of None \<Rightarrow> 6 | Some n \<Rightarrow> if n \<noteq> 0 then n else 6))"

text \<open>
  \<^verbatim>\<open>deriveSingleColor\<close>. \<open>None\<close> stands for a colour with NaN fields, which the code
  would build from a segment that is not six hexadecimal digits.
\<close>

definition deriveSingleColor :: "string \<Rightarrow> config \<Rightarrow> color option" where
  "deriveSingleColor hashSegment cfg =
     (case (parseInt16 (substring hashSegment 0 3),
            parseInt16 (substring hashSegment 3 5),
            parseInt16 (substring hashSegment 5 6)) of
        (Some hv, Some sv, Some lv) \<Rightarrow>
          (let hue = (of_int hv / 4095) * 360;
               satRange = satRangeOf cfg;
               lightRange = lightRangeOf cfg;
               satNorm = of_int sv / 255;
               saturation = fst satRange + satNorm * (snd satRange - fst satRange);
               lightNorm = of_int lv / 15;
               lightness = fst lightRange + lightNorm * (snd lightRange - fst lightRange);
               v = \<lparr>hsl_h = js_round hue,
                    hsl_s = js_round (saturation * 100),
                    hsl_l = js_round (lightness * 100)\<rparr>
           in Some \<lparr>hsl = v, css = hslToCss v, hex = hslToHex v\<rparr>)
      | _ \<Rightarrow> None)"

definition segmentLength :: nat where
  "segmentLength = 6"

text \<open>
  The loop \<^verbatim>\<open>for (let i = 0; i < paletteSize; i++)\<close>: the segment starts at
  \<^verbatim>\<open>startIdx % 64\<close>, and a colour is pushed only when the segment has all six
  characters. \<open>NotANumber\<close> marks the place where the code would carry a NaN colour on.
\<close>

function paletteLoop ::
  "config \<Rightarrow> string \<Rightarrow> string \<Rightarrow> nat \<Rightarrow> nat \<Rightarrow> swatch list \<Rightarrow> error + swatch list"
where
  "paletteLoop cfg hash fullHash psize i acc =
     (if i < psize then
        (let startIdx = i * segmentLength;
             segment = substring fullHash (startIdx mod 64) ((startIdx mod 64) + segmentLength)
         in if length segment = segmentLength then
              (case deriveSingleColor segment cfg of
                 None \<Rightarrow> Inl NotANumber
               | Some c \<Rightarrow>
                   paletteLoop cfg hash fullHash psize (i + 1)
                     (acc @ [\<lparr>hsl = hsl c, css = css c, hex = hex c, index = i,
                              fromHash = substring hash 0 8 @ ''...''\<rparr>]))
            else paletteLoop cfg hash fullHash psize (i + 1) acc)
      else Inr acc)"
  by pat_completeness auto
termination
  by (relation "measure (\<lambda>(cfg, hash, fullHash, psize, i, acc). psize - i)") auto

declare paletteLoop.simps [simp del]

definition accentOf :: "swatch \<Rightarrow> color" where
  "accentOf primary =
     (let accentHue = js_mod_int (hsl_h (hsl primary) + 180) 360;
          v = \<lparr>hsl_h = accentHue, hsl_s = hsl_s (hsl primary), hsl_l = hsl_l (hsl primary)\<rparr>
      in \<lparr>hsl = v,
          css = ''hsl('' @ intToString 10 accentHue @ '', '' @ intToString 10 (hsl_s (hsl primary))
                  @ ''%, '' @ intToString 10 (hsl_l (hsl primary)) @ ''%)'',
          hex = hslToHex v\<rparr>)"

text \<open>
  \<^verbatim>\<open>deriveColors\<close>. \<open>loaded\<close> is what \<^verbatim>\<open>loadConfig\<close> yields (\<open>None\<close>: it throws),
  \<open>now\<close> is the clock read for \<^verbatim>\<open>derivedAt\<close>, and \<open>parsedData\<close> is \<open>None\<close> for a
  null or undefined argument. When \<^verbatim>\<open>!parsedData || !parsedData.hash\<close> holds, the
  function returns an object with an empty palette and only four fields.
\<close>

definition noHashResult :: "config \<Rightarrow> color_data" where
  "noHashResult cfg =
     \<lparr>palette = [], primaryColor = None, accentColor = None, cd_hash = None,
      cd_algorithm = configuredAlgorithm cfg, cd_metadata = None, derivedAt = None\<rparr>"

definition deriveFrom ::
  "config \<Rightarrow> (string \<Rightarrow> 256 word) \<Rightarrow> string \<Rightarrow> parsed_data \<Rightarrow> string \<Rightarrow> error + color_data"
where
  "deriveFrom cfg digest now pd hash =
     (let psize = paletteSizeOf cfg;
          algo = (case pd_algorithm pd of
                    Some a \<Rightarrow> if a \<noteq> [] then a else configuredAlgorithm cfg
                  | None \<Rightarrow> configuredAlgorithm cfg);
          fullHash = sha256 digest hash
      in case paletteLoop cfg hash fullHash psize 0 [] of
           Inl e \<Rightarrow> Inl e
         | Inr pal \<Rightarrow>
             (let primary = (case pal of [] \<Rightarrow> None | p # ps \<Rightarrow> Some p);
                  accent = (case primary of None \<Rightarrow> None | Some p \<Rightarrow> Some (accentOf p))
              in Inr \<lparr>palette = pal, primaryColor = primary, accentColor = accent,
                      cd_hash = Some hash, cd_algorithm = algo,
                      cd_metadata =
                        Some (if truthy (pd_metadata pd) then pd_metadata pd else JObj []),
                      derivedAt = Some now\<rparr>))"

fun deriveColors ::
  "config option \<Rightarrow> (string \<Rightarrow> 256 word) \<Rightarrow> string \<Rightarrow> parsed_data option \<Rightarrow> error + color_data"
where
  "deriveColors None digest now parsedData = Inl ConfigLoadError"
| "deriveColors (Some cfg) digest now None = Inr (noHashResult cfg)"
| "deriveColors (Some cfg) digest now (Some pd) =
     (case pd_hash pd of
        None \<Rightarrow> Inr (noHashResult cfg)
      | Some hash \<Rightarrow>
          if hash = [] then Inr (noHashResult cfg) else deriveFrom cfg digest now pd hash)"

section \<open>publish.js\<close>

text \<open>
  What the module gets from its platform: whether \<^verbatim>\<open>window\<close> and \<^verbatim>\<open>process\<close>
  exist, what \<^verbatim>\<open>loadConfig\<close> yields, the directory of the module's parent, the file
  system (for each path, the \<^verbatim>\<open>code\<close> of the error \<^verbatim>\<open>mkdir\<close> throws, or the
  \<^verbatim>\<open>message\<close> of the error \<^verbatim>\<open>writeFile\<close> throws, \<open>None\<close> when the call
  succeeds), \<^verbatim>\<open>JSON.stringify\<close>, and the two clock reads of the generators.
\<close>

record platform =
  hasWindow :: bool
  hasProcess :: bool
  loadedConfig :: "config option"
  baseDir :: string
  mkdirError :: "string \<Rightarrow> string option"
  writeFileError :: "string \<Rightarrow> string option"
  stringify :: "json \<Rightarrow> string"
  cssTimestamp :: string
  jsonTimestamp :: string

record publish_options =
  opt_outputDir :: "string option"
  opt_css :: "bool option"
  opt_json :: "bool option"
  opt_html :: "bool option"
  opt_format :: "string option"

record publish_result =
  success :: bool
  outputs :: "(string \<times> string) list"
  errors :: "string list"

definition joinWith :: "string \<Rightarrow> string list \<Rightarrow> string" where
  "joinWith sep parts = (case parts of [] \<Rightarrow> [] | p # ps \<Rightarrow> p @ concat (map (\<lambda>q. sep @ q) ps))"

definition hslTriple :: "hsl \<Rightarrow> string" where
  "hslTriple v =
     intToString 10 (hsl_h v) @ '', '' @ intToString 10 (hsl_s v) @ ''%, ''
       @ intToString 10 (hsl_l v) @ ''%;''"

definition generateCssVariables :: "string \<Rightarrow> color_data \<Rightarrow> string" where
  "generateCssVariables timestamp colorData =
     joinWith [CHR 0x0A]
       ([''/* BlockHash Accent Colors - Generated '' @ timestamp @ '' */'',
         ''/* Source Hash: ''
           @ (case cd_hash colorData of None \<Rightarrow> ''N/A'' | Some h \<Rightarrow> if h \<noteq> [] then h else ''N/A'')
           @ '' */'',
         '':root {'']
        @ (case primaryColor colorData of
             None \<Rightarrow> []
           | Some p \<Rightarrow>
               [''  --primary-color: '' @ css p @ '';'',
                ''  --primary-hex: '' @ hex p @ '';'',
                ''  --primary-hsl: '' @ hslTriple (hsl p)])
        @ (case accentColor colorData of
             None \<Rightarrow> []
           | Some a \<Rightarrow>
               [''  --accent-color: '' @ css a @ '';'',
                ''  --accent-hex: '' @ hex a @ '';'',
                ''  --accent-hsl: '' @ hslTriple (hsl a)])
        @ concat (map (\<lambda>(idx, c).
              [''  --color-'' @ intToString 10 (int idx + 1) @ '': '' @ css c @ '';'',
               ''  --color-'' @ intToString 10 (int idx + 1) @ ''-hex: '' @ hex c @ '';'',
               ''  --color-'' @ intToString 10 (int idx + 1) @ ''-hsl: '' @ hslTriple (hsl c)])
            (enumerate 0 (palette colorData)))
        @ [''}''])"

definition hslJson :: "hsl \<Rightarrow> json" where
  "hslJson v =
     JObj [(''h'', JNum (of_int (hsl_h v))), (''s'', JNum (of_int (hsl_s v))),
           (''l'', JNum (of_int (hsl_l v)))]"

definition generateJsonOutput :: "(json \<Rightarrow> string) \<Rightarrow> string \<Rightarrow> color_data \<Rightarrow> string" where
  "generateJsonOutput toText timestamp colorData =
     toText (JObj
       [(''generatedAt'', JStr timestamp),
        (''sourceHash'', case cd_hash colorData of None \<Rightarrow> JNull | Some h \<Rightarrow> JStr h),
        (''algorithm'', JStr (cd_algorithm colorData)),
        (''primary'',
           case primaryColor colorData of
             None \<Rightarrow> JNull
           | Some p \<Rightarrow> JObj [(''hex'', JStr (hex p)), (''css'', JStr (css p)), (''hsl'', hslJson (hsl p))]),
        (''accent'',
           case accentColor colorData of
             None \<Rightarrow> JNull
           | Some a \<Rightarrow> JObj [(''hex'', JStr (hex a)), (''css'', JStr (css a)), (''hsl'', hslJson (hsl a))]),
        (''palette'',
           JArr (map (\<lambda>c. JObj [(''index'', JNum (of_nat (index c))), (''hex'', JStr (hex c)),
                                 (''css'', JStr (css c)), (''hsl'', hslJson (hsl c))])
                  (palette colorData)))])"

text \<open>The HTML fragment, after \<^verbatim>\<open>trim()\<close>; \<open>quoted\<close> wraps a text in double quotes.\<close>

definition quoted :: "string \<Rightarrow> string" where
  "quoted str = [CHR 0x22] @ str @ [CHR 0x22]"

definition generateHtmlPreview :: "color_data \<Rightarrow> string" where
  "generateHtmlPreview colorData =
     (let colors = map hex (palette colorData);
          primary = (case primaryColor colorData of None \<Rightarrow> ''#000000'' | Some p \<Rightarrow> hex p);
          accent = (case accentColor colorData of None \<Rightarrow> ''#ffffff'' | Some a \<Rightarrow> hex a)
      in ''<!-- BlockHash Accent Colors Preview -->'' @ [CHR 0x0A]
         @ ''<div class='' @ quoted ''blockhash-colors'' @ '' data-hash=''
         @ quoted (case cd_hash colorData of None \<Rightarrow> ''null'' | Some h \<Rightarrow> h) @ ''>'' @ [CHR 0x0A]
         @ ''  <div class='' @ quoted ''palette'' @ '' style='' @ quoted ''display: flex; gap: 4px;''
         @ ''>'' @ [CHR 0x0A]
         @ ''    ''
         @ concat (map (\<lambda>c. ''<div style=''
               @ quoted (''width: 32px; height: 32px; background: '' @ c @ ''; border-radius: 4px;'')
               @ '' title='' @ quoted c @ ''></div>'') colors)
         @ [CHR 0x0A]
         @ ''  </div>'' @ [CHR 0x0A]
         @ ''  <div class='' @ quoted ''primary'' @ '' style='' @ quoted (''color: '' @ primary @ '';'')
         @ ''>Primary: '' @ primary @ ''</div>'' @ [CHR 0x0A]
         @ ''  <div class='' @ quoted ''accent'' @ '' style='' @ quoted (''color: '' @ accent @ '';'')
         @ ''>Accent: '' @ accent @ ''</div>'' @ [CHR 0x0A]
         @ ''</div>'')"

text \<open>
  \<^verbatim>\<open>join(baseDir, outputDir, name)\<close>, without the normalisation of
  \<^verbatim>\<open>path.join\<close>.
\<close>

definition joinPath :: "string list \<Rightarrow> string" where
  "joinPath parts = joinWith ''/'' parts"

text \<open>
  One \<^verbatim>\<open>try { await writeFile(...); results.outputs.push(...) } catch (err) { ... }\<close>
  block of \<^verbatim>\<open>publishToFile\<close>; the state is the report so far and the files written
  so far.
\<close>

definition writeStep ::
  "platform \<Rightarrow> string \<Rightarrow> string \<Rightarrow> string \<Rightarrow> string
     \<Rightarrow> publish_result \<times> (string \<times> string) list \<Rightarrow> publish_result \<times> (string \<times> string) list"
where
  "writeStep pf kind label path content st =
     (case writeFileError pf path of
        None \<Rightarrow> ((fst st)\<lparr>outputs := outputs (fst st) @ [(kind, path)]\<rparr>, snd st @ [(path, content)])
      | Some msg \<Rightarrow>
          ((fst st)\<lparr>errors := errors (fst st) @ [''Failed to write '' @ label @ '': '' @ msg],
                    success := False\<rparr>,
           snd st))"

text \<open>\<^verbatim>\<open>options.outputDir || cfg.output?.publicDir || 'public'\<close>.\<close>

definition outputDirOf :: "config \<Rightarrow> publish_options \<Rightarrow> string" where
  "outputDirOf cfg options =
     (let configured =
            (case outputConfig cfg of
               None \<Rightarrow> None
             | Some oc \<Rightarrow> publicDir oc)
      in case opt_outputDir options of
           Some d \<Rightarrow> if d \<noteq> [] then d
                     else (case configured of
                             Some d' \<Rightarrow> if d' \<noteq> [] then d' else ''public''
                           | None \<Rightarrow> ''public'')
         | None \<Rightarrow> (case configured of
                      Some d' \<Rightarrow> if d' \<noteq> [] then d' else ''public''
                    | None \<Rightarrow> ''public''))"

definition publishToFile ::
  "platform \<Rightarrow> color_data \<Rightarrow> publish_options \<Rightarrow> (error + publish_result) \<times> (string \<times> string) list"
where
  "publishToFile pf colorData options =
     (case loadedConfig pf of
        None \<Rightarrow> (Inl ConfigLoadError, [])
      | Some cfg \<Rightarrow>
          (let outputDir = outputDirOf cfg options;
               results = \<lparr>success = True, outputs = [], errors = []\<rparr>
           in if hasWindow pf then
                (Inr (results\<lparr>success := False,
                              errors := errors results @ [''publishToFile requires Node.js environment'']\<rparr>),
                 [])
              else
                (case (case mkdirError pf (joinPath [baseDir pf, outputDir]) of
                         None \<Rightarrow> None
                       | Some code \<Rightarrow> if code \<noteq> ''EEXIST'' then Some code else None) of
                   Some code \<Rightarrow> (Inl (FsError code), [])
                 | None \<Rightarrow>
                     (let st0 = (results, []);
                          st1 = (if opt_css options \<noteq> Some False
                                 then writeStep pf ''css'' ''CSS''
                                        (joinPath [baseDir pf, outputDir, ''colors.css''])
                                        (generateCssVariables (cssTimestamp pf) colorData) st0
                                 else st0);
                          st2 = (if opt_json options \<noteq> Some False
                                 then writeStep pf ''json'' ''JSON''
                                        (joinPath [baseDir pf, outputDir, ''colors.json''])
                                        (generateJsonOutput (stringify pf) (jsonTimestamp pf) colorData) st1
                                 else st1);
                          st3 = (if opt_html options \<noteq> Some False
                                 then writeStep pf ''html'' ''HTML''
                                        (joinPath [baseDir pf, outputDir, ''colors-preview.html''])
                                        (generateHtmlPreview colorData) st2
                                 else st2)
                      in (Inr (fst st3), snd st3)))))"

definition publishForBrowser :: "platform \<Rightarrow> color_data \<Rightarrow> string \<Rightarrow> string" where
  "publishForBrowser pf colorData format =
     (if format = ''css'' then generateCssVariables (cssTimestamp pf) colorData
      else if format = ''json'' then generateJsonOutput (stringify pf) (jsonTimestamp pf) colorData
      else if format = ''html'' then generateHtmlPreview colorData
      else [])"

text \<open>
  \<^verbatim>\<open>publish\<close> returns the report of \<^verbatim>\<open>publishToFile\<close> under Node.js and a
  formatted string elsewhere.
\<close>

datatype published = Report publish_result | Formatted string

definition publish ::
  "platform \<Rightarrow> color_data \<Rightarrow> publish_options \<Rightarrow> (error + published) \<times> (string \<times> string) list"
where
  "publish pf colorData options =
     (if \<not> hasWindow pf \<and> hasProcess pf then
        (case publishToFile pf colorData options of
           (Inl e, files) \<Rightarrow> (Inl e, files)
         | (Inr r, files) \<Rightarrow> (Inr (Report r), files))
      else
        (let format = (case opt_format options of
                         None \<Rightarrow> ''css''
                       | Some f \<Rightarrow> if f \<noteq> [] then f else ''css'')
         in (Inr (Formatted (publishForBrowser pf colorData format)), [])))"

section \<open>Example inputs\<close>

text \<open>
  The configuration shown in the project's README (its \<^verbatim>\<open>latestBlockEndpoint\<close> is not
  shown there; \<^verbatim>\<open>/blocks\<close> is the endpoint the fetcher's comments name), a server
  platform whose file system refuses one path, and one that refuses to create the output
  directory.
\<close>

definition exampleConfig :: config where
  "exampleConfig =
     \<lparr>blockchain = Some \<lparr>rpcUrl = ''https://blockstream.info/api'', latestBlockEndpoint = ''/blocks''\<rparr>,
      colorDerivation = Some \<lparr>algorithm = Some ''sha256'', paletteSize = Some 6,
                               saturationRange = Some (6 / 10, 9 / 10),
                               lightnessRange = Some (4 / 10, 7 / 10)\<rparr>,
      outputConfig = None\<rparr>"

definition nodePlatform :: "(string \<Rightarrow> string option) \<Rightarrow> (string \<Rightarrow> string option) \<Rightarrow> platform" where
  "nodePlatform mkdirOutcome writeOutcome =
     \<lparr>hasWindow = False, hasProcess = True, loadedConfig = Some exampleConfig,
      baseDir = ''/app'', mkdirError = mkdirOutcome, writeFileError = writeOutcome,
      stringify = (\<lambda>v. ''{}''), cssTimestamp = ''2026-02-28T00:00:00.000Z'',
      jsonTimestamp = ''2026-02-28T00:00:00.001Z''\<rparr>"

definition allFormats :: publish_options where
  "allFormats =
     \<lparr>opt_outputDir = None, opt_css = None, opt_json = None, opt_html = None, opt_format = None\<rparr>"

text \<open>
  The block hash of the README's example output, what \<^verbatim>\<open>parseLedger\<close> returns for it,
  and a digest function that maps every input to the SHA-256 digest of that hash.
\<close>

definition readmeHash :: string where
  "readmeHash = ''00000000000000000000118985e6ff66d62ea0e1adbc77b17bb7a9e776d4ae3d''"

definition readmeParsed :: parsed_data where
  "readmeParsed =
     \<lparr>pd_hash = Some readmeHash, pd_hashes = [readmeHash],
      pd_metadata = JObj [(''height'', JNull), (''timestamp'', JNull), (''txCount'', JNum 0),
                          (''size'', JNull)],
      pd_algorithm = Some ''sha256''\<rparr>"

definition readmeDigest :: "string \<Rightarrow> 256 word" where
  "readmeDigest input = 0x6ebd80420c589f760c228560119abe4f46d23f111d1405555ec9ac6ceed0eeb4"


section \<open>The colour conversion of the specification\<close>

text \<open>
  The specification's conversion, written from its words and not from the code, to compare
  \<^verbatim>\<open>hslToHex\<close> with: "Convert HSL to RGB using the standard piecewise chroma/hue-sector
  formula (six 60 degree wide sectors), then to a \<^verbatim>\<open>#rrggbb\<close> hex string with each
  channel rounded to nearest integer and clamped to [0,255]". The hue is an angle, taken
  modulo 360; \<open>H\<close> is its sector coordinate in \<open>[0, 6)\<close>, \<open>C\<close> the chroma, \<open>X\<close>
  the second largest component and \<open>m\<close> the lightness offset.
\<close>

definition clampChannel :: "int \<Rightarrow> int" where
  "clampChannel n = max 0 (min 255 n)"

definition spec_hslToRgb :: "hsl \<Rightarrow> int \<times> int \<times> int" where
  "spec_hslToRgb v =
     (let H = (of_int (hsl_h v mod 360) / 60 :: rat);
          S = of_int (hsl_s v) / 100;
          L = of_int (hsl_l v) / 100;
          C = (1 - \<bar>2 * L - 1\<bar>) * S;
          X = C * (1 - \<bar>H - 2 * of_int \<lfloor>H / 2\<rfloor> - 1\<bar>);
          m = L - C / 2;
          (r, g, b) =
            (if H < 1 then (C, X, 0)
             else if H < 2 then (X, C, 0)
             else if H < 3 then (0, C, X)
             else if H < 4 then (0, X, C)
             else if H < 5 then (X, 0, C)
             else (C, 0, X));
          channel = (\<lambda>u. clampChannel (js_round ((u + m) * 255)))
      in (channel r, channel g, channel b))"

text \<open>
  The three channels that a \<^verbatim>\<open>#rrggbb\<close> string denotes: \<open>None\<close> unless the string is
  a hash sign followed by six hexadecimal digits.
\<close>

definition hexChannels :: "string \<Rightarrow> (int \<times> int \<times> int) option" where
  "hexChannels str =
     (if length str = 7 \<and> hd str = CHR ''#'' then
        (case (parseInt16 (substring str 1 3), parseInt16 (substring str 3 5),
               parseInt16 (substring str 5 7)) of
           (Some r, Some g, Some b) \<Rightarrow> Some (r, g, b)
         | _ \<Rightarrow> None)
      else None)"




section \<open>Properties of the fetcher\<close>

lemma requests_append [simp]: "requests (xs @ ys) = requests xs + requests ys"
  by (simp add: requests_def)

lemma requests_simps [simp]:
  "requests [] = 0" "requests (Request # tr) = Suc (requests tr)" "requests (Sleep d # tr) = requests tr"
  by (simp_all add: requests_def)

lemma fetchWithRetry_trace:
  "\<exists>n. snd (fetchWithRetry rc server attempt tr) =
         tr @ Request # concat (map (\<lambda>j. [Sleep (getBackoffDelay rc j), Request]) [attempt..<attempt + n])"
proof (induction rc server attempt tr rule: fetchWithRetry.induct)
  case (1 rc server attempt tr)
  let ?d = "getBackoffDelay rc attempt"
  let ?f = "\<lambda>j. [Sleep (getBackoffDelay rc j), Request]"
  have step: "\<exists>n. snd (fetchWithRetry rc server (attempt + 1) (tr @ [Request, Sleep ?d])) =
      tr @ Request # concat (map ?f [attempt..<attempt + n])"
    if ih: "\<exists>n. snd (fetchWithRetry rc server (attempt + 1) (tr @ [Request, Sleep ?d])) =
         (tr @ [Request, Sleep ?d]) @ Request # concat (map ?f [attempt + 1..<attempt + 1 + n])"
  proof -
    from ih obtain n where n: "snd (fetchWithRetry rc server (attempt + 1) (tr @ [Request, Sleep ?d])) =
         (tr @ [Request, Sleep ?d]) @ Request # concat (map ?f [attempt + 1..<attempt + 1 + n])"
      by blast
    have "[attempt..<attempt + Suc n] = attempt # [attempt + 1..<attempt + 1 + n]"
      by (simp add: upt_conv_Cons)
    then have "tr @ Request # concat (map ?f [attempt..<attempt + Suc n]) =
        (tr @ [Request, Sleep ?d]) @ Request # concat (map ?f [attempt + 1..<attempt + 1 + n])"
      by simp
    with n show ?thesis by metis
  qed
  have base: "\<exists>n. tr @ [Request] = tr @ Request # concat (map ?f [attempt..<attempt + n])"
    by (rule exI[of _ 0]) simp
  show ?case
  proof (cases "server (requests tr)")
    case (Responds resp)
    show ?thesis
    proof (cases "status resp \<ge> 500 \<and> attempt < maxRetries rc")
      case True
      then have "fetchWithRetry rc server attempt tr =
          fetchWithRetry rc server (attempt + 1) (tr @ [Request, Sleep ?d])"
        using Responds by (subst fetchWithRetry.simps) simp
      moreover note step[OF "1.IH"(1)[OF Responds True]]
      ultimately show ?thesis by simp
    next
      case False
      then have "fetchWithRetry rc server attempt tr = (Inr resp, tr @ [Request])"
        using Responds by (subst fetchWithRetry.simps) auto
      then show ?thesis using base by simp
    qed
  next
    case (NetworkFails msg)
    show ?thesis
    proof (cases "attempt < maxRetries rc")
      case True
      then have "fetchWithRetry rc server attempt tr =
          fetchWithRetry rc server (attempt + 1) (tr @ [Request, Sleep ?d])"
        using NetworkFails by (subst fetchWithRetry.simps) simp
      moreover note step[OF "1.IH"(2)[OF NetworkFails True]]
      ultimately show ?thesis by simp
    next
      case False
      then have "fetchWithRetry rc server attempt tr = (Inl (NetworkError msg), tr @ [Request])"
        using NetworkFails by (subst fetchWithRetry.simps) auto
      then show ?thesis using base by simp
    qed
  qed
qed

lemma schedule_nth:
  "k < n \<Longrightarrow>
     (Request # concat (map (\<lambda>j. [Sleep (f j), Request]) [a..<a + n])) ! (2 * k + 1) = Sleep (f (a + k))
   \<and> (Request # concat (map (\<lambda>j. [Sleep (f j), Request]) [a..<a + n])) ! (2 * k + 2) = Request
   \<and> requests (take (2 * k + 2) (Request # concat (map (\<lambda>j. [Sleep (f j), Request]) [a..<a + n]))) = k + 1"
proof (induction k arbitrary: a n)
  case 0
  then obtain m where "n = Suc m" by (cases n) auto
  then have "[a..<a + n] = a # [Suc a..<Suc a + m]" by (simp add: upt_conv_Cons)
  then show ?case by simp
next
  case (Suc k)
  then obtain m where m: "n = Suc m" "k < m" by (cases n) auto
  then have u: "[a..<a + n] = a # [Suc a..<Suc a + m]" by (simp add: upt_conv_Cons)
  from Suc.IH[OF m(2), of "Suc a"] show ?case
    unfolding u by simp
qed

lemma schedule_requests:
  "requests (Request # concat (map (\<lambda>j. [Sleep (f j), Request]) [a..<a + n])) = n + 1"
proof (induction n arbitrary: a)
  case 0
  then show ?case by simp
next
  case (Suc n)
  have "[a..<a + Suc n] = a # [Suc a..<Suc a + n]" by (simp add: upt_conv_Cons)
  with Suc[of "Suc a"] show ?case by simp
qed

text \<open>
  Claim C4 (backoff schedule), as the code has it. \<^verbatim>\<open>fetchWithRetry\<close> sleeps
  \<^verbatim>\<open>getBackoffDelay(attempt)\<close> after the failed attempt number \<open>attempt\<close>, so the delay
  slept before attempt \<open>k \<ge> 1\<close> (the request at position \<open>2 * k\<close> of the trace, with
  exactly \<open>k\<close> requests before it) is
  \<open>min maxDelayMs (initialDelayMs * backoffMultiplier ^ (k - 1))\<close>: the exponent is
  \<open>k - 1\<close>, not \<open>k\<close>. With the defaults the delays before attempts 1, 2, 3 are 1000 ms,
  2000 ms and 4000 ms.
\<close>

theorem backoff_schedule:
  assumes "1 \<le> k" and "k < requests (snd (fetchWithRetry rc server 0 []))"
  shows "snd (fetchWithRetry rc server 0 []) ! (2 * k) = Request
       \<and> requests (take (2 * k) (snd (fetchWithRetry rc server 0 []))) = k
       \<and> snd (fetchWithRetry rc server 0 []) ! (2 * k - 1) =
           Sleep (min (maxDelayMs rc) (initialDelayMs rc * backoffMultiplier rc ^ (k - 1)))
       \<and> getBackoffDelay RETRY_CONFIG 0 = 1000
       \<and> getBackoffDelay RETRY_CONFIG 1 = 2000
       \<and> getBackoffDelay RETRY_CONFIG 2 = 4000"
proof -
  obtain n where n: "snd (fetchWithRetry rc server 0 []) =
      Request # concat (map (\<lambda>j. [Sleep (getBackoffDelay rc j), Request]) [0..<0 + n])"
    using fetchWithRetry_trace[of rc server 0 "[]"] by auto
  from assms(2) have "k < n + 1"
    unfolding n schedule_requests .
  with assms(1) obtain k' where k': "k = Suc k'" "k' < n"
    by (cases k) auto
  have d: "getBackoffDelay rc k' = min (maxDelayMs rc) (initialDelayMs rc * backoffMultiplier rc ^ k')"
    by (simp add: getBackoffDelay_def Let_def min.commute)
  from schedule_nth[OF k'(2), of "getBackoffDelay rc" 0] show ?thesis
    unfolding n k' d by (simp add: getBackoffDelay_def RETRY_CONFIG_def)
qed

text \<open>
  The schedule at the default configuration against an endpoint that always answers 503:
  attempt 2 is made, and 2000 ms are slept before it.
\<close>

theorem backoff_schedule_witness:
  "snd (fetchWithRetry RETRY_CONFIG (\<lambda>n. Responds \<lparr>status = 503, statusText = ''Service Unavailable'', body = None\<rparr>) 0 []) ! 4 = Request
   \<and> snd (fetchWithRetry RETRY_CONFIG (\<lambda>n. Responds \<lparr>status = 503, statusText = ''Service Unavailable'', body = None\<rparr>) 0 []) ! 3 = Sleep 2000"
proof -
  let ?srv = "\<lambda>n::nat. Responds \<lparr>status = 503, statusText = ''Service Unavailable'', body = None\<rparr>"
  have r: "(2::nat) < requests (snd (fetchWithRetry RETRY_CONFIG ?srv 0 []))"
    by (simp add: fetchWithRetry.simps RETRY_CONFIG_def getBackoffDelay_def)
  from backoff_schedule[of 2 RETRY_CONFIG ?srv, OF _ r] show ?thesis
    by (simp add: RETRY_CONFIG_def)
qed

text \<open>
  Claim C4 as stated fails: before attempt 1 the code sleeps 1000 ms, not
  \<open>min 10000 (1000 * 2 ^ 1) = 2000\<close> ms.
\<close>

theorem backoff_schedule_counterexample:
  "snd (fetchWithRetry RETRY_CONFIG (\<lambda>n. Responds \<lparr>status = 503, statusText = ''Service Unavailable'', body = None\<rparr>) 0 []) ! 2 = Request
   \<and> snd (fetchWithRetry RETRY_CONFIG (\<lambda>n. Responds \<lparr>status = 503, statusText = ''Service Unavailable'', body = None\<rparr>) 0 []) ! 1 = Sleep 1000
   \<and> snd (fetchWithRetry RETRY_CONFIG (\<lambda>n. Responds \<lparr>status = 503, statusText = ''Service Unavailable'', body = None\<rparr>) 0 []) ! 1
       \<noteq> Sleep (min (maxDelayMs RETRY_CONFIG) (initialDelayMs RETRY_CONFIG * backoffMultiplier RETRY_CONFIG ^ 1))"
  by (simp add: fetchWithRetry.simps RETRY_CONFIG_def getBackoffDelay_def)


lemma fetchWithRetry_5xx:
  assumes "500 \<le> status r"
  shows "attempt \<le> maxRetries rc \<Longrightarrow>
     fst (fetchWithRetry rc (\<lambda>n. Responds r) attempt tr) = Inr r
   \<and> requests (snd (fetchWithRetry rc (\<lambda>n. Responds r) attempt tr)) =
       requests tr + (maxRetries rc + 1 - attempt)"
proof (induction n \<equiv> "maxRetries rc - attempt" arbitrary: attempt tr)
  case 0
  then have "\<not> attempt < maxRetries rc" by simp
  then have "fetchWithRetry rc (\<lambda>n. Responds r) attempt tr = (Inr r, tr @ [Request])"
    by (subst fetchWithRetry.simps) simp
  with 0 show ?case by simp
next
  case (Suc n)
  then have lt: "attempt < maxRetries rc" by simp
  then have eq: "fetchWithRetry rc (\<lambda>n. Responds r) attempt tr =
      fetchWithRetry rc (\<lambda>n. Responds r) (attempt + 1)
        (tr @ [Request, Sleep (getBackoffDelay rc attempt)])"
    using assms by (subst fetchWithRetry.simps) simp
  from Suc.hyps(2) lt have "n = maxRetries rc - (attempt + 1)" by simp
  from Suc.hyps(1)[OF this, of "tr @ [Request, Sleep (getBackoffDelay rc attempt)]"] lt
  show ?case unfolding eq by simp
qed

lemma tryBody_5xx:
  assumes "500 \<le> status r"
  shows "tryBody rc (\<lambda>n. Responds r) attempt tr =
     (if attempt < maxRetries rc
      then (Continue, snd (fetchWithRetry rc (\<lambda>n. Responds r) 0 tr) @ [Sleep (getBackoffDelay rc attempt)])
      else (Throw (HttpError (status r) (statusText r)), snd (fetchWithRetry rc (\<lambda>n. Responds r) 0 tr)))"
proof -
  have "fst (fetchWithRetry rc (\<lambda>n. Responds r) 0 tr) = Inr r"
    using fetchWithRetry_5xx[OF assms, of 0 rc tr] by simp
  then obtain tr1 where "fetchWithRetry rc (\<lambda>n. Responds r) 0 tr = (Inr r, tr1)"
    by (cases "fetchWithRetry rc (\<lambda>n. Responds r) 0 tr") simp
  moreover have "\<not> ok r" using assms by (simp add: ok_def)
  ultimately show ?thesis using assms by (simp add: tryBody_def)
qed

lemma fetchLoop_5xx:
  assumes "500 \<le> status r"
  shows "attempt \<le> maxRetries rc \<Longrightarrow>
     fst (fetchLoop rc (\<lambda>n. Responds r) attempt lastError tr) =
       Inl (FetchFailed (maxRetries rc + 1) (Some (HttpError (status r) (statusText r))))
   \<and> requests (snd (fetchLoop rc (\<lambda>n. Responds r) attempt lastError tr)) =
       requests tr + (maxRetries rc + 1 - attempt) * (maxRetries rc + 1)"
proof (induction n \<equiv> "maxRetries rc - attempt" arbitrary: attempt lastError tr)
  case 0
  then have at: "attempt = maxRetries rc" by simp
  let ?tr1 = "snd (fetchWithRetry rc (\<lambda>n. Responds r) 0 tr)"
  have "fetchLoop rc (\<lambda>n. Responds r) attempt lastError tr =
      fetchLoop rc (\<lambda>n. Responds r) (attempt + 1) (Some (HttpError (status r) (statusText r))) ?tr1"
    using at by (subst fetchLoop.simps) (simp add: tryBody_5xx[OF assms])
  also have "\<dots> = (Inl (FetchFailed (maxRetries rc + 1) (Some (HttpError (status r) (statusText r)))), ?tr1)"
    using at by (subst fetchLoop.simps) simp
  finally show ?case
    using fetchWithRetry_5xx[OF assms, of 0 rc tr] at by simp
next
  case (Suc n)
  then have lt: "attempt < maxRetries rc" by simp
  let ?tr1 = "snd (fetchWithRetry rc (\<lambda>n. Responds r) 0 tr) @ [Sleep (getBackoffDelay rc attempt)]"
  have eq: "fetchLoop rc (\<lambda>n. Responds r) attempt lastError tr =
      fetchLoop rc (\<lambda>n. Responds r) (attempt + 1) lastError ?tr1"
    using lt by (subst fetchLoop.simps) (simp add: tryBody_5xx[OF assms])
  from Suc.hyps(2) lt have n: "n = maxRetries rc - (attempt + 1)" by simp
  have r1: "requests ?tr1 = requests tr + (maxRetries rc + 1)"
    using fetchWithRetry_5xx[OF assms, of 0 rc tr] by simp
  have "(maxRetries rc + 1 - attempt) = Suc (maxRetries rc + 1 - (attempt + 1))"
    using lt by simp
  then have ar: "(maxRetries rc + 1 - attempt) * (maxRetries rc + 1) =
      (maxRetries rc + 1) + (maxRetries rc + 1 - (attempt + 1)) * (maxRetries rc + 1)"
    by simp
  from Suc.hyps(1)[OF n, of lastError ?tr1] lt
  show ?case unfolding eq r1 ar by simp
qed

lemma fetchLoop_4xx:
  assumes "status r < 500" and "\<not> ok r"
  shows "attempt \<le> maxRetries rc \<Longrightarrow>
     fetchLoop rc (\<lambda>n. Responds r) attempt lastError tr =
       (Inl (FetchFailed (maxRetries rc + 1) (Some (HttpError (status r) (statusText r)))),
        tr @ concat (map (\<lambda>k. [Request, Sleep (getBackoffDelay rc k)]) [attempt..<maxRetries rc])
           @ [Request])"
proof (induction n \<equiv> "maxRetries rc - attempt" arbitrary: attempt lastError tr)
  case 0
  then have at: "attempt = maxRetries rc" by simp
  have fw: "fetchWithRetry rc (\<lambda>n. Responds r) 0 tr = (Inr r, tr @ [Request])"
    using assms by (subst fetchWithRetry.simps) simp
  have "fetchLoop rc (\<lambda>n. Responds r) attempt lastError tr =
      fetchLoop rc (\<lambda>n. Responds r) (attempt + 1) (Some (HttpError (status r) (statusText r)))
        (tr @ [Request])"
    using at assms by (subst fetchLoop.simps) (simp add: tryBody_def fw)
  also have "\<dots> = (Inl (FetchFailed (maxRetries rc + 1) (Some (HttpError (status r) (statusText r)))),
      tr @ [Request])"
    using at by (subst fetchLoop.simps) simp
  finally show ?case using at by simp
next
  case (Suc n)
  then have lt: "attempt < maxRetries rc" by simp
  have fw: "fetchWithRetry rc (\<lambda>n. Responds r) 0 tr = (Inr r, tr @ [Request])"
    using assms by (subst fetchWithRetry.simps) simp
  have eq: "fetchLoop rc (\<lambda>n. Responds r) attempt lastError tr =
      fetchLoop rc (\<lambda>n. Responds r) (attempt + 1) (Some (HttpError (status r) (statusText r)))
        (tr @ [Request, Sleep (getBackoffDelay rc attempt)])"
    using lt assms by (subst fetchLoop.simps) (simp add: tryBody_def fw)
  from Suc.hyps(2) lt have n: "n = maxRetries rc - (attempt + 1)" by simp
  have u: "[attempt..<maxRetries rc] = attempt # [attempt + 1..<maxRetries rc]"
    using lt by (simp add: upt_conv_Cons)
  from Suc.hyps(1)[OF n] lt show ?case unfolding eq u by simp
qed

text \<open>
  Claim C2 (retry ceiling) at an endpoint that answers every request with HTTP 503. Each
  of the \<open>maxRetries + 1\<close> iterations of the loop in \<^verbatim>\<open>fetchLatestBlockHash\<close> calls
  \<^verbatim>\<open>fetchWithRetry\<close>, which itself makes \<open>maxRetries + 1\<close> requests before it hands the
  503 response back. The call fails, as claimed, but after
  \<open>(maxRetries + 1) * (maxRetries + 1)\<close> requests: 16 with the defaults, where the claim
  says 4.
\<close>

theorem retry_ceiling_503:
  "fst (fetchLatestBlockHash rc (Some \<lparr>blockchain = Some bc, colorDerivation = cd, outputConfig = oc\<rparr>)
          (\<lambda>n. Responds \<lparr>status = 503, statusText = txt, body = b\<rparr>))
     = Inl (FetchFailed (maxRetries rc + 1) (Some (HttpError 503 txt)))
   \<and> requests (snd (fetchLatestBlockHash rc
          (Some \<lparr>blockchain = Some bc, colorDerivation = cd, outputConfig = oc\<rparr>)
          (\<lambda>n. Responds \<lparr>status = 503, statusText = txt, body = b\<rparr>)))
     = (maxRetries rc + 1) * (maxRetries rc + 1)
   \<and> requests (snd (fetchLatestBlockHash RETRY_CONFIG
          (Some \<lparr>blockchain = Some bc, colorDerivation = cd, outputConfig = oc\<rparr>)
          (\<lambda>n. Responds \<lparr>status = 503, statusText = txt, body = b\<rparr>)))
     = 16"
proof -
  let ?r = "\<lparr>status = 503, statusText = txt, body = b\<rparr>"
  have s: "500 \<le> status ?r" by simp
  show ?thesis
    using fetchLoop_5xx[OF s, of 0 rc None "[]"] fetchLoop_5xx[OF s, of 0 RETRY_CONFIG None "[]"]
    by (simp add: fetchLatestBlockHash_def RETRY_CONFIG_def)
qed

text \<open>
  Claim C3 (no retry on 4xx) at an endpoint that answers every request with HTTP 404.
  The \<^verbatim>\<open>throw error\<close> for a client error is caught by the \<^verbatim>\<open>catch\<close> of the same
  loop iteration, which sleeps and lets the loop go on: the request is made
  \<open>maxRetries + 1\<close> times with the backoff delays in between (1000, 2000 and 4000 ms
  with the defaults), where the claim says one request and no delay.
\<close>

theorem client_error_404_retried:
  "fetchLatestBlockHash rc (Some \<lparr>blockchain = Some bc, colorDerivation = cd, outputConfig = oc\<rparr>)
       (\<lambda>n. Responds \<lparr>status = 404, statusText = txt, body = b\<rparr>)
     = (Inl (FetchFailed (maxRetries rc + 1) (Some (HttpError 404 txt))),
        concat (map (\<lambda>k. [Request, Sleep (getBackoffDelay rc k)]) [0..<maxRetries rc]) @ [Request])
   \<and> snd (fetchLatestBlockHash RETRY_CONFIG
          (Some \<lparr>blockchain = Some bc, colorDerivation = cd, outputConfig = oc\<rparr>)
          (\<lambda>n. Responds \<lparr>status = 404, statusText = txt, body = b\<rparr>))
     = [Request, Sleep 1000, Request, Sleep 2000, Request, Sleep 4000, Request]"
proof -
  let ?r = "\<lparr>status = 404, statusText = txt, body = b\<rparr>"
  have s: "status ?r < 500" "\<not> ok ?r" by (simp_all add: ok_def)
  have u: "[0..<maxRetries RETRY_CONFIG] = [0, 1, 2]"
    by (simp add: RETRY_CONFIG_def upt_conv_Cons)
  show ?thesis
    using fetchLoop_4xx[OF s, of 0 rc None "[]"] fetchLoop_4xx[OF s, of 0 RETRY_CONFIG None "[]"]
    unfolding u by (simp add: fetchLatestBlockHash_def RETRY_CONFIG_def getBackoffDelay_def)
qed

section \<open>Properties of the ledger parser\<close>

lemma parseBlocks_filter:
  "parseBlocks bs acc = acc @ filter truthy (map parseBlockHash bs)"
  by (induction bs arbitrary: acc) (simp_all add: Let_def)

lemma parseBlockArray_filter:
  "parseBlockArray (JArr bs) = filter truthy (map parseBlockHash bs)"
  by (cases bs) (simp_all add: parseBlockArray_def parseBlocks_filter Let_def)

lemma parseBlockHash_valid:
  "truthy (parseBlockHash b) \<Longrightarrow> hexTest (parseBlockHash b)"
  by (auto simp: parseBlockHash_def Let_def split: if_splits json.splits)

lemma parseBlockHash_truthy_iff:
  "truthy (parseBlockHash b) \<longleftrightarrow> parseBlockHash b \<noteq> JNull"
  by (auto simp: parseBlockHash_def Let_def split: if_splits json.splits)

lemma of_char_lower:
  "(of_char (char_of (n + 32 :: nat)) :: nat) = n + 32" if "n \<le> 90"
  using that by (simp add: of_char_of)

lemma isHexChar_lower:
  assumes "isHexChar ch"
  shows "isLowerHexChar (let n = (of_char ch :: nat) in if 65 \<le> n \<and> n \<le> 90 then char_of (n + 32) else ch)"
proof (cases "65 \<le> (of_char ch :: nat) \<and> (of_char ch :: nat) \<le> 90")
  case True
  with assms have "(of_char ch :: nat) \<le> 70"
    by (auto simp: isHexChar_def hexDigitValue_def Let_def split: if_splits)
  with True show ?thesis
    by (simp add: isLowerHexChar_def Let_def of_char_of)
next
  case False
  with assms show ?thesis
    by (auto simp: isHexChar_def hexDigitValue_def isLowerHexChar_def Let_def split: if_splits)
qed

lemma normalize_noop:
  "list_all isHexChar str \<Longrightarrow> filter isLowerHexChar (toLowerCase str) = toLowerCase str"
  by (induction str) (simp_all add: toLowerCase_def isHexChar_lower)

lemma normalizeHash_valid_string:
  "hexTest (JStr str) \<Longrightarrow> normalizeHash (JStr str) = Inr (toLowerCase str)"
  by (simp add: normalizeHash_def normalize_noop)

lemma mapNormalize_strings:
  "\<forall>h \<in> set hs. \<exists>str. h = JStr str \<Longrightarrow> \<exists>ns. mapNormalize hs = Inr ns"
proof (induction hs)
  case Nil
  then show ?case by simp
next
  case (Cons h hs)
  then obtain str ns where "h = JStr str" "mapNormalize hs = Inr ns" by auto
  then show ?case by (simp add: normalizeHash_def)
qed

lemma mapNormalize_nonstring:
  "h \<in> set hs \<Longrightarrow> truthy h \<Longrightarrow> \<forall>str. h \<noteq> JStr str \<Longrightarrow> mapNormalize hs = Inl TypeError"
proof (induction hs)
  case Nil
  then show ?case by simp
next
  case (Cons a hs)
  show ?case
  proof (cases "h = a")
    case True
    with Cons.prems show ?thesis by (cases a) (simp_all add: normalizeHash_def)
  next
    case False
    with Cons have ih: "mapNormalize hs = Inl TypeError" by simp
    show ?thesis
      by (cases "normalizeHash a") (auto simp: ih normalizeHash_def split: if_splits json.splits)
  qed
qed

lemma find_filter_map:
  "(case find (\<lambda>b. P (f b)) bs of None \<Rightarrow> d | Some b \<Rightarrow> g (f b)) =
   (case filter P (map f bs) of [] \<Rightarrow> d | h # hs \<Rightarrow> g h)"
  by (induction bs) simp_all

lemma metadata_first:
  "(case bs of [] \<Rightarrow> JObj [] | b0 # bs' \<Rightarrow> if truthy b0 then extractBlockMetadata b0 else JObj [])
   = (case bs of [] \<Rightarrow> JObj [] | b0 # bs' \<Rightarrow> extractBlockMetadata b0)"
  by (cases bs) (simp_all add: extractBlockMetadata_def)

lemma mapNormalize_valid_strings:
  "\<forall>h \<in> set hs. \<exists>str. h = JStr str \<and> hexTest h \<Longrightarrow>
     mapNormalize hs = Inr (map (\<lambda>h. case h of JStr str \<Rightarrow> toLowerCase str | _ \<Rightarrow> []) hs)"
proof (induction hs)
  case Nil
  then show ?case by simp
next
  case (Cons h hs)
  then obtain str where h: "h = JStr str" "hexTest (JStr str)" by auto
  from Cons have "mapNormalize hs = Inr (map (\<lambda>h. case h of JStr str \<Rightarrow> toLowerCase str | _ \<Rightarrow> []) hs)"
    by simp
  with h show ?case by (simp add: normalizeHash_valid_string)
qed

text \<open>
  Claim C10 (array input: hash and metadata from different blocks). For every array
  \<open>bs\<close> given to \<^verbatim>\<open>parseLedger\<close>: when every hash or id that passes the hex test is
  a string, the call returns; the returned hash is the normalisation (the lowercase
  form) of the hash of the first element of the array whose hash passes the test, which
  need not be element 0, and is empty when no element passes; the returned metadata are
  those of element 0 whatever its hash is. When some element's hash passes the test
  without being a string (a number such as 15), \<^verbatim>\<open>normalizeHash\<close> throws a TypeError
  and nothing is returned.
\<close>

theorem parseLedger_array_first_valid:
  "((\<forall>b \<in> set bs. parseBlockHash b = JNull \<or> (\<exists>str. parseBlockHash b = JStr str)) \<longrightarrow>
      (\<exists>r. parseLedger (Some cfg) (JArr bs) = Inr r
         \<and> pd_hash r =
             Some (case find (\<lambda>b. parseBlockHash b \<noteq> JNull) bs of
                     None \<Rightarrow> []
                   | Some b \<Rightarrow> (case parseBlockHash b of JStr str \<Rightarrow> toLowerCase str | _ \<Rightarrow> []))
         \<and> pd_metadata r = (case bs of [] \<Rightarrow> JObj [] | b0 # rest \<Rightarrow> extractBlockMetadata b0)))
   \<and> ((\<exists>b \<in> set bs. parseBlockHash b \<noteq> JNull \<and> (\<forall>str. parseBlockHash b \<noteq> JStr str)) \<longrightarrow>
      parseLedger (Some cfg) (JArr bs) = Inl TypeError)"
proof (intro conjI impI)
  let ?hs = "filter truthy (map parseBlockHash bs)"
  let ?low = "\<lambda>h. case h of JStr str \<Rightarrow> toLowerCase str | _ \<Rightarrow> []"
  assume strs: "\<forall>b \<in> set bs. parseBlockHash b = JNull \<or> (\<exists>str. parseBlockHash b = JStr str)"
  have valid: "\<forall>h \<in> set ?hs. \<exists>str. h = JStr str \<and> hexTest h"
  proof
    fix h assume "h \<in> set ?hs"
    then obtain b where b: "b \<in> set bs" "h = parseBlockHash b" "truthy h" by auto
    from b(3) have "h \<noteq> JNull" by auto
    with strs b obtain str where "h = JStr str" by auto
    moreover have "hexTest h" using b parseBlockHash_valid by simp
    ultimately show "\<exists>str. h = JStr str \<and> hexTest h" by simp
  qed
  have all: "mapNormalize ?hs = Inr (map ?low ?hs)"
    by (rule mapNormalize_valid_strings[OF valid])
  have first: "normalizeHash (case ?hs of [] \<Rightarrow> JNull | h0 # hs \<Rightarrow> js_or h0 JNull)
      = Inr (case ?hs of [] \<Rightarrow> [] | h0 # hs \<Rightarrow> ?low h0)"
  proof (cases ?hs)
    case Nil
    then show ?thesis by (simp add: normalizeHash_def)
  next
    case (Cons h0 hs)
    then have "h0 \<in> set ?hs" by simp
    from valid[rule_format, OF this] obtain str where s: "h0 = JStr str" "hexTest (JStr str)"
      by auto
    have "truthy (JStr str)" using s(2) by auto
    then have "normalizeHash (js_or h0 JNull) = Inr (toLowerCase str)"
      unfolding s(1) js_or_def using s(2) by (simp add: normalizeHash_valid_string)
    then show ?thesis unfolding Cons s(1) by simp
  qed
  have fnd: "(case find (\<lambda>b. parseBlockHash b \<noteq> JNull) bs of None \<Rightarrow> [] | Some b \<Rightarrow> ?low (parseBlockHash b))
      = (case ?hs of [] \<Rightarrow> [] | h0 # hs \<Rightarrow> ?low h0)"
    unfolding parseBlockHash_truthy_iff[symmetric] by (rule find_filter_map)
  have truthy_arr: "truthy (JArr bs)" by simp
  show "\<exists>r. parseLedger (Some cfg) (JArr bs) = Inr r
         \<and> pd_hash r =
             Some (case find (\<lambda>b. parseBlockHash b \<noteq> JNull) bs of
                     None \<Rightarrow> []
                   | Some b \<Rightarrow> (case parseBlockHash b of JStr str \<Rightarrow> toLowerCase str | _ \<Rightarrow> []))
         \<and> pd_metadata r = (case bs of [] \<Rightarrow> JObj [] | b0 # rest \<Rightarrow> extractBlockMetadata b0)"
    unfolding fnd parseLedger_def
    by (simp add: parseBlockArray_filter first all metadata_first Let_def del: find.simps filter.simps)
next
  let ?hs = "filter truthy (map parseBlockHash bs)"
  assume "\<exists>b \<in> set bs. parseBlockHash b \<noteq> JNull \<and> (\<forall>str. parseBlockHash b \<noteq> JStr str)"
  then obtain b where b: "b \<in> set bs" "parseBlockHash b \<noteq> JNull" "\<forall>str. parseBlockHash b \<noteq> JStr str"
    by blast
  then have "parseBlockHash b \<in> set ?hs" "truthy (parseBlockHash b)"
    by (simp_all add: parseBlockHash_truthy_iff)
  then have bad: "mapNormalize ?hs = Inl TypeError"
    using b(3) by (rule mapNormalize_nonstring)
  have nh: "normalizeHash x = Inl TypeError \<or> (\<exists>y. normalizeHash x = Inr y)" for x
    by (cases x) (simp_all add: normalizeHash_def)
  show "parseLedger (Some cfg) (JArr bs) = Inl TypeError"
    using nh[of "case ?hs of [] \<Rightarrow> JNull | h0 # hs \<Rightarrow> js_or h0 JNull"]
    unfolding parseLedger_def
    by (auto simp: parseBlockArray_filter bad Let_def simp del: find.simps filter.simps)
qed


lemma toLowerCase_example: "toLowerCase ''aA01'' = ''aa01''"
  by code_simp

text \<open>
  Element 0 carries the invalid hash \<open>XYZ\<close> and height 1, element 1 the valid id
  \<open>aA01\<close> and height 2: the returned hash is \<open>aa01\<close>, from element 1, and the returned
  metadata have height 1, from element 0.
\<close>

theorem parseLedger_array_first_valid_witness:
  "\<exists>r. parseLedger (Some \<lparr>blockchain = None, colorDerivation = None, outputConfig = None\<rparr>)
          (JArr [JObj [(''hash'', JStr ''XYZ''), (''height'', JNum 1)],
                 JObj [(''id'', JStr ''aA01''), (''height'', JNum 2)]]) = Inr r
      \<and> pd_hash r = Some ''aa01''
      \<and> pd_metadata r = JObj [(''height'', JNum 1), (''timestamp'', JNull),
                               (''txCount'', JNum 0), (''size'', JNull)]"
  using parseLedger_array_first_valid
          [of "[JObj [(''hash'', JStr ''XYZ''), (''height'', JNum 1)],
                JObj [(''id'', JStr ''aA01''), (''height'', JNum 2)]]"
              "\<lparr>blockchain = None, colorDerivation = None, outputConfig = None\<rparr>"]
  by (simp add: parseBlockHash_def isHexChar_def hexDigitValue_def toLowerCase_example
        extractBlockMetadata_def js_or_def Let_def)

section \<open>Properties of the publisher\<close>

lemma writeStep_fst:
  "fst (writeStep pf kind label path content st) =
     (case writeFileError pf path of
        None \<Rightarrow> (fst st)\<lparr>outputs := outputs (fst st) @ [(kind, path)]\<rparr>
      | Some msg \<Rightarrow> (fst st)\<lparr>errors := errors (fst st) @ [''Failed to write '' @ label @ '': '' @ msg],
                             success := False\<rparr>)"
  by (simp add: writeStep_def split: option.splits)

text \<open>
  Claim C8 (partial publish), as the code has it. Under Node.js, once the configuration
  has loaded and the output directory exists or has been created, \<^verbatim>\<open>publish\<close> does
  not throw, whatever the three writes do: it returns a report. Each enabled format is
  written independently of the others: its entry is in \<open>outputs\<close> exactly when its own
  write succeeds and its message is in \<open>errors\<close> exactly when its own write fails, and
  \<open>success\<close> is false exactly when some write failed. In particular, when the JSON write
  fails while the CSS and HTML writes succeed, \<open>success\<close> is false, \<open>outputs\<close> holds
  exactly the CSS and HTML entries, and the JSON failure is recorded in \<open>errors\<close>.
  (\<^verbatim>\<open>publish\<close> does throw when the configuration cannot be loaded or when
  \<^verbatim>\<open>mkdir\<close> fails with a code other than EEXIST.)
\<close>

theorem publish_report:
  assumes "\<not> hasWindow pf" and "hasProcess pf" and "loadedConfig pf = Some cfg"
    and "mkdirError pf (joinPath [baseDir pf, outputDirOf cfg options]) = None
         \<or> mkdirError pf (joinPath [baseDir pf, outputDirOf cfg options]) = Some ''EEXIST''"
    and "cssPath = joinPath [baseDir pf, outputDirOf cfg options, ''colors.css'']"
    and "jsonPath = joinPath [baseDir pf, outputDirOf cfg options, ''colors.json'']"
    and "htmlPath = joinPath [baseDir pf, outputDirOf cfg options, ''colors-preview.html'']"
  shows "\<exists>r. fst (publish pf colorData options) = Inr (Report r)
     \<and> outputs r =
         (if opt_css options \<noteq> Some False \<and> writeFileError pf cssPath = None
          then [(''css'', cssPath)] else [])
         @ (if opt_json options \<noteq> Some False \<and> writeFileError pf jsonPath = None
            then [(''json'', jsonPath)] else [])
         @ (if opt_html options \<noteq> Some False \<and> writeFileError pf htmlPath = None
            then [(''html'', htmlPath)] else [])
     \<and> errors r =
         (case (if opt_css options \<noteq> Some False then writeFileError pf cssPath else None) of
            None \<Rightarrow> [] | Some msg \<Rightarrow> [''Failed to write CSS: '' @ msg])
         @ (case (if opt_json options \<noteq> Some False then writeFileError pf jsonPath else None) of
              None \<Rightarrow> [] | Some msg \<Rightarrow> [''Failed to write JSON: '' @ msg])
         @ (case (if opt_html options \<noteq> Some False then writeFileError pf htmlPath else None) of
              None \<Rightarrow> [] | Some msg \<Rightarrow> [''Failed to write HTML: '' @ msg])
     \<and> success r = (errors r = [])
     \<and> (opt_css options \<noteq> Some False \<and> opt_json options \<noteq> Some False
          \<and> opt_html options \<noteq> Some False \<and> writeFileError pf cssPath = None
          \<and> writeFileError pf jsonPath = Some failure \<and> writeFileError pf htmlPath = None
        \<longrightarrow> success r = False
            \<and> outputs r = [(''css'', cssPath), (''html'', htmlPath)]
            \<and> errors r = [''Failed to write JSON: '' @ failure])"
proof -
  have dir: "(case mkdirError pf (joinPath [baseDir pf, outputDirOf cfg options]) of
               None \<Rightarrow> None
             | Some code \<Rightarrow> if code \<noteq> ''EEXIST'' then Some code else None) = None"
    using assms(4) by auto
  show ?thesis
    using assms(1,2,3)
    unfolding publish_def publishToFile_def assms(5,6,7)
    by (simp only: dir Let_def option.case if_False if_True simp_thms split_def fst_conv snd_conv)
       (auto simp: writeStep_fst split: option.splits)
qed


text \<open>A file system that refuses \<^verbatim>\<open>colors.json\<close> only.\<close>

theorem publish_report_witness:
  "\<exists>r. fst (publish
            (nodePlatform (\<lambda>path. None)
               (\<lambda>path. if path = ''/app/public/colors.json''
                        then Some ''EACCES: permission denied'' else None))
            (noHashResult exampleConfig) allFormats) = Inr (Report r)
      \<and> success r = False
      \<and> outputs r = [(''css'', ''/app/public/colors.css''),
                     (''html'', ''/app/public/colors-preview.html'')]
      \<and> errors r = [''Failed to write JSON: EACCES: permission denied'']"
  using publish_report
          [where pf = "nodePlatform (\<lambda>path. None)
                 (\<lambda>path. if path = ''/app/public/colors.json''
                          then Some ''EACCES: permission denied'' else None)"
             and cfg = exampleConfig and options = allFormats
             and cssPath = "''/app/public/colors.css''"
             and jsonPath = "''/app/public/colors.json''"
             and htmlPath = "''/app/public/colors-preview.html''"
             and failure = "''EACCES: permission denied''"
             and colorData = "noHashResult exampleConfig"]
  by (simp add: nodePlatform_def allFormats_def exampleConfig_def outputDirOf_def joinPath_def
        joinWith_def) blast

text \<open>
  Claim C8 as stated fails in its first part: when the output directory cannot be created
  (\<^verbatim>\<open>mkdir\<close> fails with EACCES), \<^verbatim>\<open>publishToFile\<close> rethrows the error, so
  \<^verbatim>\<open>publish\<close> throws and nothing is written.
\<close>

theorem publish_throws_counterexample:
  "fst (publish (nodePlatform (\<lambda>path. Some ''EACCES'') (\<lambda>path. None))
          (noHashResult exampleConfig) allFormats) = Inl (FsError ''EACCES'')
   \<and> snd (publish (nodePlatform (\<lambda>path. Some ''EACCES'') (\<lambda>path. None))
          (noHashResult exampleConfig) allFormats) = []"
  by (simp add: publish_def publishToFile_def nodePlatform_def allFormats_def exampleConfig_def
        outputDirOf_def joinPath_def joinWith_def)

section \<open>Properties of the colour derivation\<close>

subsection \<open>Hexadecimal text and rounding\<close>

lemma digits_all:
  "\<forall>d \<in> set [0..<16]. hexDigitValue (digitChar d) = Some d"
  by code_simp

lemma hexDigitValue_digitChar:
  "d < 16 \<Longrightarrow> hexDigitValue (digitChar d) = Some d"
  using digits_all by simp

lemma isHexChar_digitChar: "d < 16 \<Longrightarrow> isHexChar (digitChar d)"
  by (simp add: isHexChar_def hexDigitValue_digitChar)

lemma hexDigitValue_less: "hexDigitValue ch = Some d \<Longrightarrow> d < 16"
  by (auto simp: hexDigitValue_def Let_def split: if_splits)

lemma natToString16_byte:
  assumes "n < 256"
  shows "padStart2 (natToString 16 n) = [digitChar (n div 16), digitChar (n mod 16)]"
proof (cases "n < 16")
  case True
  then have "natToString 16 n = [digitChar n]"
    by (subst natToString.simps) simp
  with True show ?thesis
    by (simp add: padStart2_def digitChar_def)
next
  case False
  then have d: "n div 16 < 16" using assms by simp
  have "natToString 16 n = natToString 16 (n div 16) @ [digitChar (n mod 16)]"
    using False by (subst natToString.simps) simp
  also have "natToString 16 (n div 16) = [digitChar (n div 16)]"
    using d by (subst natToString.simps) simp
  finally show ?thesis by (simp add: padStart2_def)
qed

lemma hexByte:
  fixes b :: "8 word"
  shows "padStart2 (intToString 16 (uint b)) = [digitChar (unat b div 16), digitChar (unat b mod 16)]"
proof -
  have "unat b < 256" using unsigned_less[of b] by simp
  then show ?thesis
    by (simp add: intToString_def natToString16_byte)
qed

lemma concat_pairs_length:
  "\<forall>x \<in> set xs. length (f x) = 2 \<Longrightarrow> length (concat (map f xs)) = 2 * length xs"
  by (induction xs) simp_all

lemma sha256_length: "length (sha256 digest input) = 64"
  unfolding sha256_def Let_def
  by (subst concat_pairs_length) (simp_all add: hexByte digestBytes_def)

lemma hexByte_chars:
  fixes b :: "8 word"
  shows "list_all isHexChar (padStart2 (intToString 16 (uint b)))"
proof -
  have "unat b < 256" using unsigned_less[of b] by simp
  then have "unat b div 16 < 16" by simp
  then show ?thesis by (simp add: hexByte isHexChar_digitChar)
qed

lemma sha256_hex: "list_all isHexChar (sha256 digest input)"
  unfolding sha256_def Let_def
  by (simp add: list_all_iff) (metis hexByte_chars list_all_iff)




lemma foldl_hex_bound:
  assumes "list_all isHexChar str"
  shows "0 \<le> a \<Longrightarrow>
     0 \<le> foldl (\<lambda>v ch. 16 * v + int (case hexDigitValue ch of Some d \<Rightarrow> d | None \<Rightarrow> 0)) a str
   \<and> foldl (\<lambda>v ch. 16 * v + int (case hexDigitValue ch of Some d \<Rightarrow> d | None \<Rightarrow> 0)) a str
       < (a + 1) * 16 ^ length str"
  using assms
proof (induction str arbitrary: a)
  case Nil
  then show ?case by simp
next
  case (Cons ch str)
  then obtain d where d: "hexDigitValue ch = Some d" "d < 16"
    by (auto simp: isHexChar_def hexDigitValue_less)
  let ?a = "16 * a + int d"
  have a0: "0 \<le> ?a" using Cons.prems by simp
  from Cons.IH[OF a0] Cons.prems have ih:
    "0 \<le> foldl (\<lambda>v ch. 16 * v + int (case hexDigitValue ch of Some d \<Rightarrow> d | None \<Rightarrow> 0)) ?a str"
    "foldl (\<lambda>v ch. 16 * v + int (case hexDigitValue ch of Some d \<Rightarrow> d | None \<Rightarrow> 0)) ?a str
       < (?a + 1) * 16 ^ length str"
    by simp_all
  have "?a + 1 \<le> (a + 1) * 16" using d(2) by simp
  then have "(?a + 1) * 16 ^ length str \<le> ((a + 1) * 16) * 16 ^ length str"
    by (intro mult_right_mono) simp_all
  then have le: "(?a + 1) * 16 ^ length str \<le> (a + 1) * 16 ^ length (ch # str)"
    by (simp add: mult.assoc)
  from ih(2) le have "foldl (\<lambda>v ch. 16 * v + int (case hexDigitValue ch of Some d \<Rightarrow> d | None \<Rightarrow> 0)) ?a str
       < (a + 1) * 16 ^ length (ch # str)"
    by (rule less_le_trans)
  with ih(1) show ?case by (simp add: d(1))
qed

lemma parseInt16_hex:
  assumes "str \<noteq> []" and "list_all isHexChar str"
  shows "\<exists>v. parseInt16 str = Some v \<and> 0 \<le> v \<and> v < 16 ^ length str"
  using foldl_hex_bound[OF assms(2), of 0] assms by (simp add: parseInt16_def)

lemma segment_parts:
  assumes "length seg = 6" and "list_all isHexChar seg"
  shows "\<exists>hv sv lv.
      parseInt16 (substring seg 0 3) = Some hv \<and> 0 \<le> hv \<and> hv \<le> 4095
    \<and> parseInt16 (substring seg 3 5) = Some sv \<and> 0 \<le> sv \<and> sv \<le> 255
    \<and> parseInt16 (substring seg 5 6) = Some lv \<and> 0 \<le> lv \<and> lv \<le> 15"
proof -
  have h: "substring seg 0 3 \<noteq> []" "list_all isHexChar (substring seg 0 3)" "length (substring seg 0 3) = 3"
    using assms by (auto simp: substring_def list_all_iff dest: in_set_takeD)
  have s: "substring seg 3 5 \<noteq> []" "list_all isHexChar (substring seg 3 5)" "length (substring seg 3 5) = 2"
    using assms by (auto simp: substring_def list_all_iff dest: in_set_takeD in_set_dropD)
  have l: "substring seg 5 6 \<noteq> []" "list_all isHexChar (substring seg 5 6)" "length (substring seg 5 6) = 1"
    using assms by (auto simp: substring_def list_all_iff dest: in_set_takeD in_set_dropD)
  from parseInt16_hex[OF h(1,2)] obtain hv where hv: "parseInt16 (substring seg 0 3) = Some hv" "0 \<le> hv" "hv < 16 ^ 3"
    unfolding h(3) by blast
  from parseInt16_hex[OF s(1,2)] obtain sv where sv: "parseInt16 (substring seg 3 5) = Some sv" "0 \<le> sv" "sv < 16 ^ 2"
    unfolding s(3) by blast
  from parseInt16_hex[OF l(1,2)] obtain lv where lv: "parseInt16 (substring seg 5 6) = Some lv" "0 \<le> lv" "lv < 16 ^ 1"
    unfolding l(3) by blast
  from hv sv lv show ?thesis by simp
qed

subsection \<open>The palette loop\<close>

lemma window_full:
  assumes "length fullHash = 64" and "list_all isHexChar fullHash" and "off + 6 \<le> 64"
  shows "length (substring fullHash off (off + 6)) = 6"
    and "list_all isHexChar (substring fullHash off (off + 6))"
  using assms by (auto simp: substring_def list_all_iff dest: in_set_takeD in_set_dropD)

lemma window_short:
  assumes "length fullHash = 64" and "\<not> off + 6 \<le> 64"
  shows "length (substring fullHash off (off + 6)) \<noteq> 6"
  using assms by (auto simp: substring_def)

lemma deriveSingleColor_some:
  assumes "length seg = 6" and "list_all isHexChar seg"
  shows "\<exists>c. deriveSingleColor seg cfg = Some c"
proof -
  from segment_parts[OF assms] obtain hv sv lv where
    "parseInt16 (substring seg 0 3) = Some hv"
    "parseInt16 (substring seg 3 5) = Some sv"
    "parseInt16 (substring seg 5 6) = Some lv"
    by blast
  then show ?thesis by (simp add: deriveSingleColor_def Let_def)
qed

lemma color_eta: "\<lparr>hsl = hsl c, css = css c, hex = hex c\<rparr> = (c :: color)"
  by simp

lemma paletteLoop_result:
  assumes len: "length fullHash = 64" and hx: "list_all isHexChar fullHash"
  shows "\<exists>pal. paletteLoop cfg hash fullHash psize i acc = Inr (acc @ pal)
     \<and> map index pal = filter (\<lambda>j. (j * 6) mod 64 + 6 \<le> 64) [i..<psize]
     \<and> (\<forall>sw \<in> set pal.
           deriveSingleColor
             (substring fullHash ((index sw * 6) mod 64) ((index sw * 6) mod 64 + 6)) cfg
             = Some \<lparr>hsl = hsl sw, css = css sw, hex = hex sw\<rparr>
         \<and> fromHash sw = substring hash 0 8 @ ''...'')"
proof (induction n \<equiv> "psize - i" arbitrary: i acc)
  case 0
  then have "\<not> i < psize" by simp
  then have r: "paletteLoop cfg hash fullHash psize i acc = Inr acc"
    by (subst paletteLoop.simps) simp
  have e: "[i..<psize] = []" using 0 by simp
  show ?case unfolding e r by simp
next
  case (Suc n)
  then have lt: "i < psize" and n: "n = psize - (i + 1)" by simp_all
  let ?off = "(i * 6) mod 64"
  let ?seg = "substring fullHash ?off (?off + 6)"
  have upt: "[i..<psize] = i # [i + 1..<psize]"
    using lt by (simp add: upt_conv_Cons)
  show ?case
  proof (cases "?off + 6 \<le> 64")
    case True
    from window_full[OF len hx True] have seg: "length ?seg = 6" "list_all isHexChar ?seg" .
    from deriveSingleColor_some[OF seg] obtain c where c: "deriveSingleColor ?seg cfg = Some c"
      by blast
    let ?sw = "\<lparr>hsl = hsl c, css = css c, hex = hex c, index = i,
               fromHash = substring hash 0 8 @ ''...''\<rparr>"
    have step: "paletteLoop cfg hash fullHash psize i acc =
        paletteLoop cfg hash fullHash psize (i + 1) (acc @ [?sw])"
      using lt seg(1) c by (subst paletteLoop.simps) (simp add: segmentLength_def Let_def)
    from Suc.hyps(1)[OF n, of "acc @ [?sw]"] obtain pal where pal:
      "paletteLoop cfg hash fullHash psize (i + 1) (acc @ [?sw]) = Inr ((acc @ [?sw]) @ pal)"
      "map index pal = filter (\<lambda>j. (j * 6) mod 64 + 6 \<le> 64) [i + 1..<psize]"
      "\<forall>sw \<in> set pal.
           deriveSingleColor
             (substring fullHash ((index sw * 6) mod 64) ((index sw * 6) mod 64 + 6)) cfg
             = Some \<lparr>hsl = hsl sw, css = css sw, hex = hex sw\<rparr>
         \<and> fromHash sw = substring hash 0 8 @ ''...''"
      by blast
    have "paletteLoop cfg hash fullHash psize i acc = Inr (acc @ (?sw # pal))"
      unfolding step pal(1) by simp
    moreover have "map index (?sw # pal) = filter (\<lambda>j. (j * 6) mod 64 + 6 \<le> 64) [i..<psize]"
      unfolding upt using True pal(2) by simp
    moreover have "\<forall>sw \<in> set (?sw # pal).
           deriveSingleColor
             (substring fullHash ((index sw * 6) mod 64) ((index sw * 6) mod 64 + 6)) cfg
             = Some \<lparr>hsl = hsl sw, css = css sw, hex = hex sw\<rparr>
         \<and> fromHash sw = substring hash 0 8 @ ''...''"
      using pal(3) c by simp
    ultimately show ?thesis by blast
  next
    case False
    from window_short[OF len False] have seg: "length ?seg \<noteq> 6" .
    have step: "paletteLoop cfg hash fullHash psize i acc =
        paletteLoop cfg hash fullHash psize (i + 1) acc"
      using lt seg by (subst paletteLoop.simps) (simp add: segmentLength_def Let_def)
    from Suc.hyps(1)[OF n, of acc] obtain pal where pal:
      "paletteLoop cfg hash fullHash psize (i + 1) acc = Inr (acc @ pal)"
      "map index pal = filter (\<lambda>j. (j * 6) mod 64 + 6 \<le> 64) [i + 1..<psize]"
      "\<forall>sw \<in> set pal.
           deriveSingleColor
             (substring fullHash ((index sw * 6) mod 64) ((index sw * 6) mod 64 + 6)) cfg
             = Some \<lparr>hsl = hsl sw, css = css sw, hex = hex sw\<rparr>
         \<and> fromHash sw = substring hash 0 8 @ ''...''"
      by blast
    have "map index pal = filter (\<lambda>j. (j * 6) mod 64 + 6 \<le> 64) [i..<psize]"
      unfolding upt using False pal(2) by simp
    with pal(1,3) show ?thesis unfolding step by blast
  qed
qed

subsection \<open>The result of a derivation\<close>

lemma deriveFrom_result:
  "\<exists>pal. paletteLoop cfg hash (sha256 digest hash) (paletteSizeOf cfg) 0 [] = Inr pal
     \<and> (\<exists>cd. deriveFrom cfg digest now pd hash = Inr cd
           \<and> palette cd = pal
           \<and> primaryColor cd = (case pal of [] \<Rightarrow> None | p # ps \<Rightarrow> Some p)
           \<and> accentColor cd = (case pal of [] \<Rightarrow> None | p # ps \<Rightarrow> Some (accentOf p)))"
proof -
  from paletteLoop_result[OF sha256_length sha256_hex, of cfg hash digest hash "paletteSizeOf cfg" 0 "[]"]
  obtain pal where pal:
    "paletteLoop cfg hash (sha256 digest hash) (paletteSizeOf cfg) 0 [] = Inr pal"
    by auto
  show ?thesis
    unfolding deriveFrom_def Let_def pal
    by (cases pal) simp_all
qed

lemma deriveColors_palette:
  assumes "pd_hash pd = Some hash" and "hash \<noteq> []"
  shows "\<exists>cd. deriveColors (Some cfg) digest now (Some pd) = Inr cd
     \<and> length (sha256 digest hash) = 64
     \<and> map index (palette cd)
         = filter (\<lambda>i. (i * 6) mod 64 + 6 \<le> 64) [0..<paletteSizeOf cfg]
     \<and> (\<forall>sw \<in> set (palette cd).
           deriveSingleColor
             (substring (sha256 digest hash) ((index sw * 6) mod 64) ((index sw * 6) mod 64 + 6))
             cfg
           = Some \<lparr>hsl = hsl sw, css = css sw, hex = hex sw\<rparr>)"
proof -
  from paletteLoop_result[OF sha256_length sha256_hex, of cfg hash digest hash "paletteSizeOf cfg" 0 "[]"]
  obtain pal where pal:
    "paletteLoop cfg hash (sha256 digest hash) (paletteSizeOf cfg) 0 [] = Inr pal"
    "map index pal = filter (\<lambda>j. (j * 6) mod 64 + 6 \<le> 64) [0..<paletteSizeOf cfg]"
    "\<forall>sw \<in> set pal.
       deriveSingleColor
         (substring (sha256 digest hash) ((index sw * 6) mod 64) ((index sw * 6) mod 64 + 6)) cfg
       = Some \<lparr>hsl = hsl sw, css = css sw, hex = hex sw\<rparr>
       \<and> fromHash sw = substring hash 0 8 @ ''...''"
    by auto
  from deriveFrom_result[of cfg hash digest now pd] pal(1)
  obtain cd where cd: "deriveFrom cfg digest now pd hash = Inr cd" "palette cd = pal"
    by auto
  have "deriveColors (Some cfg) digest now (Some pd) = Inr cd"
    using assms cd(1) by simp
  then show ?thesis
    using pal(2,3) cd(2) sha256_length by auto
qed

subsection \<open>What a palette depends on\<close>

lemma deriveSingleColor_cong:
  assumes "satRangeOf cfgA = satRangeOf cfgB" and "lightRangeOf cfgA = lightRangeOf cfgB"
  shows "deriveSingleColor seg cfgA = deriveSingleColor seg cfgB"
  unfolding deriveSingleColor_def assms by (rule refl)

lemma paletteLoop_cong:
  assumes sat: "satRangeOf cfgA = satRangeOf cfgB"
      and light: "lightRangeOf cfgA = lightRangeOf cfgB"
  shows "paletteLoop cfgA hash fullHash psize i acc = paletteLoop cfgB hash fullHash psize i acc"
proof (induction n \<equiv> "psize - i" arbitrary: i acc)
  case 0
  then have "\<not> i < psize" by simp
  then show ?case
    by (simp add: paletteLoop.simps[of cfgA hash fullHash psize i acc]
                  paletteLoop.simps[of cfgB hash fullHash psize i acc])
next
  case (Suc n)
  then have n: "n = psize - Suc i" by simp
  note ih = Suc.hyps(1)[OF n]
  show ?case
    by (simp add: paletteLoop.simps[of cfgA hash fullHash psize i acc]
                  paletteLoop.simps[of cfgB hash fullHash psize i acc]
                  deriveSingleColor_cong[OF sat light, symmetric] ih Let_def
             split: option.split)
qed

subsection \<open>Empty input\<close>

text \<open>
  Claim C7 (empty input), as the code has it. When the configuration loads and
  \<^verbatim>\<open>deriveColors\<close> is invoked with no parsed data, or with parsed data whose hash is
  absent or empty, it does not fail: it returns normally an object with an empty palette,
  \<^verbatim>\<open>primaryColor\<close> null, \<^verbatim>\<open>hash\<close> null, the configured algorithm, and no accent
  colour. No swatch is derived, and no EmptyInput error is raised.
\<close>

theorem deriveColors_no_hash:
  assumes "parsedData = None
         \<or> (\<exists>pd. parsedData = Some pd \<and> (pd_hash pd = None \<or> pd_hash pd = Some []))"
  shows "deriveColors (Some cfg) digest now parsedData =
           Inr \<lparr>palette = [], primaryColor = None, accentColor = None, cd_hash = None,
                cd_algorithm = configuredAlgorithm cfg, cd_metadata = None, derivedAt = None\<rparr>"
  using assms by (auto simp: noHashResult_def)

text \<open>The empty hash that \<^verbatim>\<open>parseLedger\<close> returns for an invalid input.\<close>

theorem deriveColors_no_hash_witness:
  "deriveColors (Some exampleConfig) (\<lambda>input. 0) ''2026-02-28T00:00:00.000Z''
       (Some \<lparr>pd_hash = Some [], pd_hashes = [], pd_metadata = JObj [],
              pd_algorithm = Some ''sha256''\<rparr>) =
     Inr \<lparr>palette = [], primaryColor = None, accentColor = None, cd_hash = None,
          cd_algorithm = ''sha256'', cd_metadata = None, derivedAt = None\<rparr>"
  using deriveColors_no_hash
          [of "Some \<lparr>pd_hash = Some [], pd_hashes = [], pd_metadata = JObj [],
                     pd_algorithm = Some ''sha256''\<rparr>"
              exampleConfig "\<lambda>input. 0" "''2026-02-28T00:00:00.000Z''"]
  by (simp add: configuredAlgorithm_def exampleConfig_def)

text \<open>
  Claim C7 as stated fails: with an empty normalized hash the caller gets a result, not a
  failure.
\<close>

theorem empty_input_counterexample:
  "deriveColors (Some exampleConfig) (\<lambda>input. 0) ''2026-02-28T00:00:00.000Z''
       (Some \<lparr>pd_hash = Some [], pd_hashes = [], pd_metadata = JObj [],
              pd_algorithm = Some ''sha256''\<rparr>) =
     Inr \<lparr>palette = [], primaryColor = None, accentColor = None, cd_hash = None,
          cd_algorithm = ''sha256'', cd_metadata = None, derivedAt = None\<rparr>
   \<and> \<not> isl (deriveColors (Some exampleConfig) (\<lambda>input. 0) ''2026-02-28T00:00:00.000Z''
       (Some \<lparr>pd_hash = Some [], pd_hashes = [], pd_metadata = JObj [],
              pd_algorithm = Some ''sha256''\<rparr>))"
  by (simp add: noHashResult_def configuredAlgorithm_def exampleConfig_def)

subsection \<open>From a window to a colour\<close>




lemma hslToHex_readme:
  "hslToHex \<lparr>hsl_h = 156, hsl_s = 85, hsl_l = 40\<rparr> = ''#0fbd77''"
proof -
  have steps:
    "ddiv 85 100 = 7656119366529843 / 9007199254740992"
    "ddiv 40 100 = 3602879701896397 / 9007199254740992"
    "dmul 2 (3602879701896397 / 9007199254740992) = 3602879701896397 / 4503599627370496"
    "dsub (3602879701896397 / 4503599627370496) 1 = - (900719925474099 / 4503599627370496)"
    "dsub 1 (900719925474099 / 4503599627370496) = 3602879701896397 / 4503599627370496"
    "dmul (3602879701896397 / 4503599627370496) (7656119366529843 / 9007199254740992) = 6124895493223875 / 9007199254740992"
    "ddiv 156 60 = 5854679515581645 / 2251799813685248"
    "js_mod (5854679515581645 / 2251799813685248) 2 = 1351079888211149 / 2251799813685248"
    "dsub (1351079888211149 / 2251799813685248) 1 = - (900719925474099 / 2251799813685248)"
    "dsub 1 (900719925474099 / 2251799813685248) = 1351079888211149 / 2251799813685248"
    "dmul (6124895493223875 / 9007199254740992) (1351079888211149 / 2251799813685248) = 7349874591868651 / 18014398509481984"
    "ddiv (6124895493223875 / 9007199254740992) 2 = 6124895493223875 / 18014398509481984"
    "dsub (3602879701896397 / 9007199254740992) (6124895493223875 / 18014398509481984) = 1080863910568919 / 18014398509481984"
    "dadd 0 (1080863910568919 / 18014398509481984) = 1080863910568919 / 18014398509481984"
    "dmul (1080863910568919 / 18014398509481984) 255 = 8613134287346073 / 562949953421312"
    "padStart2 (intToString 16 (js_round (8613134287346073 / 562949953421312))) = ''0f''"
    "dadd (6124895493223875 / 9007199254740992) (1080863910568919 / 18014398509481984) = 3332663724254167 / 4503599627370496"
    "dmul (3332663724254167 / 4503599627370496) 255 = 3319645506581299 / 17592186044416"
    "padStart2 (intToString 16 (js_round (3319645506581299 / 17592186044416))) = ''bd''"
    "dadd (7349874591868651 / 18014398509481984) (1080863910568919 / 18014398509481984) = 4215369251218785 / 9007199254740992"
    "dmul (4215369251218785 / 9007199254740992) 255 = 8397805930162423 / 70368744177664"
    "padStart2 (intToString 16 (js_round (8397805930162423 / 70368744177664))) = ''77''"
    by code_simp+
  show ?thesis
    by (simp add: hslToHex_def Let_def steps)
qed

lemma readme_primary:
  "deriveSingleColor ''6ebd80'' exampleConfig
     = Some \<lparr>hsl = \<lparr>hsl_h = 156, hsl_s = 85, hsl_l = 40\<rparr>, css = ''hsl(156, 85%, 40%)'',
             hex = ''#0fbd77''\<rparr>"
proof -
  have css: "hslToCss \<lparr>hsl_h = 156, hsl_s = 85, hsl_l = 40\<rparr> = ''hsl(156, 85%, 40%)''"
    by code_simp
  have fl: "\<lfloor>4061 / 26 :: rat\<rfloor> = 156" "\<lfloor>2921 / 34 :: rat\<rfloor> = 85" "\<lfloor>81 / 2 :: rat\<rfloor> = 40"
    by code_simp+
  show ?thesis
    by (simp add: deriveSingleColor_def Let_def isHexChar_def hexDigitValue_def parseInt16_def
          substring_def satRangeOf_def lightRangeOf_def exampleConfig_def js_round_def
          fl css hslToHex_readme)
qed

subsection \<open>Digest windows\<close>

text \<open>
  Claim C5 (cyclic digest windowing) at the README's block hash with a palette size of 11.
  The claim promises eleven swatches, the one of index 10 derived from the six characters
  that start at offset 60 and wrap around the end of the digest. The code takes the start
  offset modulo 64 but cuts the window at the end of the digest: the window of index 10 has
  four characters, and the test on the segment's length drops it. The palette has ten
  swatches, of indices 0 to 9.
\<close>

theorem palette_size_11_omits_index_10:
  "paletteSizeOf (exampleConfig\<lparr>colorDerivation :=
       Some \<lparr>algorithm = None, paletteSize = Some 11, saturationRange = None,
             lightnessRange = None\<rparr>\<rparr>) = 11
   \<and> map index
       (case deriveColors
          (Some (exampleConfig\<lparr>colorDerivation :=
             Some \<lparr>algorithm = None, paletteSize = Some 11, saturationRange = None,
                   lightnessRange = None\<rparr>\<rparr>))
          readmeDigest ''2026-02-28T00:00:00.000Z'' (Some readmeParsed) of
          Inl e \<Rightarrow> []
        | Inr cd \<Rightarrow> palette cd)
     = [0, 1, 2, 3, 4, 5, 6, 7, 8, 9]"
proof -
  let ?cfg = "exampleConfig\<lparr>colorDerivation :=
       Some \<lparr>algorithm = None, paletteSize = Some 11, saturationRange = None,
             lightnessRange = None\<rparr>\<rparr>"
  have s: "paletteSizeOf ?cfg = 11"
    by (simp add: paletteSizeOf_def)
  have u: "filter (\<lambda>i. (i * 6) mod 64 + 6 \<le> 64) [0..<11] = [0, 1, 2, 3, 4, 5, 6, 7, 8, 9 :: nat]"
    by (simp add: upt_rec)
  have h: "pd_hash readmeParsed = Some readmeHash" "readmeHash \<noteq> []"
    by (simp_all add: readmeParsed_def readmeHash_def)
  from deriveColors_palette[OF h, of ?cfg readmeDigest "''2026-02-28T00:00:00.000Z''"]
  obtain cd where cd:
    "deriveColors (Some ?cfg) readmeDigest ''2026-02-28T00:00:00.000Z'' (Some readmeParsed) = Inr cd"
    "map index (palette cd) = filter (\<lambda>i. (i * 6) mod 64 + 6 \<le> 64) [0..<paletteSizeOf ?cfg]"
    by (elim exE conjE)
  show ?thesis
    unfolding cd(1) using cd(2) s u by simp
qed

subsection \<open>Determinism\<close>

text \<open>
  Claim C1 (determinism of derivation). Take two calls of \<^verbatim>\<open>deriveColors\<close> with the
  same hash and with configurations that give the same palette size, saturation range and
  lightness range. Whatever else differs between the calls (the clock read for
  \<^verbatim>\<open>derivedAt\<close>, the metadata and the algorithm name passed along with the hash, the other
  fields of the configuration), both return, and they return the same palette (the same
  swatches, field by field, in the same order), the same primary colour and the same accent
  colour. The digest is the same function of the hash in both calls, as SHA-256 is.
\<close>

theorem derive_deterministic:
  assumes "pd_hash pdA = pd_hash pdB"
      and "paletteSizeOf cfgA = paletteSizeOf cfgB"
      and "satRangeOf cfgA = satRangeOf cfgB"
      and "lightRangeOf cfgA = lightRangeOf cfgB"
  shows "\<exists>cdA cdB. deriveColors (Some cfgA) digest nowA (Some pdA) = Inr cdA
           \<and> deriveColors (Some cfgB) digest nowB (Some pdB) = Inr cdB
           \<and> palette cdA = palette cdB
           \<and> primaryColor cdA = primaryColor cdB
           \<and> accentColor cdA = accentColor cdB"
proof (cases "pd_hash pdA = None \<or> pd_hash pdA = Some []")
  case True
  then have "deriveColors (Some cfgA) digest nowA (Some pdA) = Inr (noHashResult cfgA)"
    and "deriveColors (Some cfgB) digest nowB (Some pdB) = Inr (noHashResult cfgB)"
    using assms(1) by auto
  then show ?thesis by (simp add: noHashResult_def)
next
  case False
  then obtain hash where hash: "pd_hash pdA = Some hash" "hash \<noteq> []" by auto
  from deriveFrom_result[of cfgA hash digest nowA pdA] obtain palA cdA where a:
    "paletteLoop cfgA hash (sha256 digest hash) (paletteSizeOf cfgA) 0 [] = Inr palA"
    "deriveFrom cfgA digest nowA pdA hash = Inr cdA"
    "palette cdA = palA"
    "primaryColor cdA = (case palA of [] \<Rightarrow> None | p # ps \<Rightarrow> Some p)"
    "accentColor cdA = (case palA of [] \<Rightarrow> None | p # ps \<Rightarrow> Some (accentOf p))"
    by (elim exE conjE)
  from deriveFrom_result[of cfgB hash digest nowB pdB] obtain palB cdB where b:
    "paletteLoop cfgB hash (sha256 digest hash) (paletteSizeOf cfgB) 0 [] = Inr palB"
    "deriveFrom cfgB digest nowB pdB hash = Inr cdB"
    "palette cdB = palB"
    "primaryColor cdB = (case palB of [] \<Rightarrow> None | p # ps \<Rightarrow> Some p)"
    "accentColor cdB = (case palB of [] \<Rightarrow> None | p # ps \<Rightarrow> Some (accentOf p))"
    by (elim exE conjE)
  have "palA = palB"
    using a(1) b(1) paletteLoop_cong[OF assms(3,4), of hash "sha256 digest hash"
        "paletteSizeOf cfgB" 0 "[]"] assms(2)
    by simp
  moreover have "deriveColors (Some cfgA) digest nowA (Some pdA) = Inr cdA"
    using hash a(2) by simp
  moreover have "deriveColors (Some cfgB) digest nowB (Some pdB) = Inr cdB"
    using hash assms(1) b(2) by simp
  ultimately show ?thesis
    using a(3,4,5) b(3,4,5) by simp
qed

text \<open>
  The README's configuration against a configuration without a \<^verbatim>\<open>colorDerivation\<close>
  section (so all three settings fall back to the same defaults), at two different times and
  with different metadata.
\<close>

theorem derive_deterministic_witness:
  "\<exists>cdA cdB.
      deriveColors (Some exampleConfig) readmeDigest ''2026-02-28T00:00:00.000Z''
        (Some readmeParsed) = Inr cdA
    \<and> deriveColors (Some (exampleConfig\<lparr>colorDerivation := None\<rparr>)) readmeDigest
        ''2026-03-01T12:00:00.000Z''
        (Some (readmeParsed\<lparr>pd_metadata := JNull, pd_algorithm := None\<rparr>)) = Inr cdB
    \<and> palette cdA = palette cdB
    \<and> primaryColor cdA = primaryColor cdB
    \<and> accentColor cdA = accentColor cdB"
proof -
  have h: "pd_hash readmeParsed
             = pd_hash (readmeParsed\<lparr>pd_metadata := JNull, pd_algorithm := None\<rparr>)"
    by simp
  have p: "paletteSizeOf exampleConfig = paletteSizeOf (exampleConfig\<lparr>colorDerivation := None\<rparr>)"
    by (simp add: paletteSizeOf_def exampleConfig_def)
  have s: "satRangeOf exampleConfig = satRangeOf (exampleConfig\<lparr>colorDerivation := None\<rparr>)"
    by (simp add: satRangeOf_def exampleConfig_def)
  have l: "lightRangeOf exampleConfig = lightRangeOf (exampleConfig\<lparr>colorDerivation := None\<rparr>)"
    by (simp add: lightRangeOf_def exampleConfig_def)
  show ?thesis
    by (rule derive_deterministic[OF h p s l])
qed

subsection \<open>Channels of a hexadecimal colour\<close>








subsection \<open>Bounds on the quantities of the standard conversion\<close>




subsection \<open>Ranges of the derived colours\<close>





subsection \<open>The stored hex field\<close>

lemma deriveSingleColor_hex:
  assumes "deriveSingleColor seg cfg = Some c"
  shows "hex c = hslToHex (hsl c)"
  using assms
  by (auto simp: deriveSingleColor_def Let_def split: option.splits)


subsection \<open>Rounding to a double\<close>











subsection \<open>The conversion on doubles and the standard conversion\<close>




subsection \<open>Two conversions, double by double\<close>

text \<open>
  For \<^verbatim>\<open>hsl(0, 75%, 40%)\<close> the rounding of the doubles shows: the code stores
  \<^verbatim>\<open>#b31919\<close>, the exact conversion gives the channels of \<^verbatim>\<open>#b31a1a\<close>.
\<close>

lemma hslToHex_rounding:
  "hslToHex \<lparr>hsl_h = 0, hsl_s = 75, hsl_l = 40\<rparr> = ''#b31919''"
proof -
  have steps:
    "ddiv 75 100 = 3 / 4"
    "ddiv 40 100 = 3602879701896397 / 9007199254740992"
    "dmul 2 (3602879701896397 / 9007199254740992) = 3602879701896397 / 4503599627370496"
    "dsub (3602879701896397 / 4503599627370496) 1 = - (900719925474099 / 4503599627370496)"
    "dsub 1 (900719925474099 / 4503599627370496) = 3602879701896397 / 4503599627370496"
    "dmul (3602879701896397 / 4503599627370496) (3 / 4) = 1351079888211149 / 2251799813685248"
    "ddiv 0 60 = 0"
    "js_mod 0 2 = 0"
    "dsub 0 1 = - 1"
    "dsub 1 1 = 0"
    "dmul (1351079888211149 / 2251799813685248) 0 = 0"
    "ddiv (1351079888211149 / 2251799813685248) 2 = 1351079888211149 / 4503599627370496"
    "dsub (3602879701896397 / 9007199254740992) (1351079888211149 / 4503599627370496) = 900719925474099 / 9007199254740992"
    "dadd (1351079888211149 / 2251799813685248) (900719925474099 / 9007199254740992) = 6305039478318695 / 9007199254740992"
    "dmul (6305039478318695 / 9007199254740992) 255 = 6280410417856513 / 35184372088832"
    "padStart2 (intToString 16 (js_round (6280410417856513 / 35184372088832))) = ''b3''"
    "dadd 0 (900719925474099 / 9007199254740992) = 900719925474099 / 9007199254740992"
    "dmul (900719925474099 / 9007199254740992) 255 = 3588805953060863 / 140737488355328"
    "padStart2 (intToString 16 (js_round (3588805953060863 / 140737488355328))) = ''19''"
    by code_simp+
  show ?thesis
    by (simp add: hslToHex_def Let_def steps)
qed

lemma rounding_seen:
  "hslToHex \<lparr>hsl_h = 0, hsl_s = 75, hsl_l = 40\<rparr> = ''#b31919''
   \<and> hexChannels ''#b31919'' = Some (179, 25, 25)
   \<and> spec_hslToRgb \<lparr>hsl_h = 0, hsl_s = 75, hsl_l = 40\<rparr> = (179, 26, 26)"
proof -
  have "hexChannels ''#b31919'' = Some (179, 25, 25)" by code_simp
  moreover have "spec_hslToRgb \<lparr>hsl_h = 0, hsl_s = 75, hsl_l = 40\<rparr> = (179, 26, 26)"
    by code_simp
  ultimately show ?thesis using hslToHex_rounding by simp
qed



subsection \<open>Round trip between HSL and hex\<close>




end
